theory Spec2Isabelle
  imports Complex_Main "HOL-Library.Word" "HOL-Library.List_Lexorder" "HOL-Library.Char_ord"
    "HOL-Library.Multiset"
begin

unbundle bit_operations_syntax

section \<open>Numbers\<close>

text \<open>
  The engine computes with JavaScript numbers: IEEE-754 binary64 values. A number is
  modelled as the \<^typ>\<open>real\<close> it denotes, and every arithmetic operation of the source as the
  exact operation followed by the rounding \<open>fl\<close> to the nearest binary64 value, ties to the
  value with an even significand. Comparisons, negation, \<open>Math.abs\<close>, \<open>Math.sign\<close>,
  \<open>Math.min\<close>, \<open>Math.max\<close>, \<open>Math.floor\<close> and \<open>Math.round\<close> are exact. A decimal literal of
  the source that is not a binary fraction is the rounding of its decimal value.

  Outside the model: \<open>NaN\<close>, the infinities and the sign of zero; a result beyond the largest
  binary64 value stays finite here, and a division by zero is \<open>0\<close>. \<open>Math.sqrt\<close> and the
  square \<open>Math.pow(v, 2)\<close> are taken as correctly rounded. Integer-valued quantities that stay
  far below \<open>2^53\<close> (tick counters, generator words, ammunition, quantised fields) are
  \<^typ>\<open>int\<close>. The bitwise operators of the source first convert their operands to 32-bit
  integers; that conversion is \<open>toInt32\<close>.
\<close>

text \<open>Rounding a real to an integer, ties to even.\<close>

definition roundHalfEven :: "real \<Rightarrow> int" where
  "roundHalfEven x =
     (let n = \<lfloor>x\<rfloor>; r = x - real_of_int n
      in if r < 1 / 2 then n else if r > 1 / 2 then n + 1 else if even n then n else n + 1)"

text \<open>
  The binary exponent of a positive number: \<open>e\<close> with \<open>2^e \<le> a < 2^(e+1)\<close>, searched upwards
  from 0 for \<open>a \<ge> 1\<close> (at most to 1023) and downwards for \<open>a < 1\<close>, where it stops at \<open>-1022\<close>,
  the exponent of the subnormal numbers.
\<close>

fun expUp :: "nat \<Rightarrow> real \<Rightarrow> int \<Rightarrow> int" where
  "expUp fuel a e = (if fuel = 0 \<or> a < 2 then e else expUp (fuel - 1) (a / 2) (e + 1))"

fun expDown :: "nat \<Rightarrow> real \<Rightarrow> int \<Rightarrow> int" where
  "expDown fuel a e = (if fuel = 0 \<or> 1 \<le> a then e else expDown (fuel - 1) (a * 2) (e - 1))"

declare expUp.simps [simp del]
declare expDown.simps [simp del]

definition exponentOf :: "real \<Rightarrow> int" where
  "exponentOf a = (if 1 \<le> a then expUp 1023 a 0 else expDown 1022 a 0)"

text \<open>The spacing of the binary64 values with exponent \<open>e\<close>: \<open>2^(e - 52)\<close>.\<close>

definition ulpAt :: "int \<Rightarrow> real" where
  "ulpAt e = (if 52 \<le> e then 2 ^ nat (e - 52) else 1 / 2 ^ nat (52 - e))"

definition fl :: "real \<Rightarrow> real" where
  "fl x = (if x = 0 then 0
           else let u = ulpAt (exponentOf \<bar>x\<bar>) in real_of_int (roundHalfEven (x / u)) * u)"

text \<open>The operators \<open>+\<close>, \<open>-\<close>, \<open>*\<close>, \<open>/\<close> of the source, and \<open>Math.sqrt\<close>.\<close>

definition fadd :: "real \<Rightarrow> real \<Rightarrow> real" where
  "fadd a b = fl (a + b)"

definition fsub :: "real \<Rightarrow> real \<Rightarrow> real" where
  "fsub a b = fl (a - b)"

definition fmul :: "real \<Rightarrow> real \<Rightarrow> real" where
  "fmul a b = fl (a * b)"

definition fdiv :: "real \<Rightarrow> real \<Rightarrow> real" where
  "fdiv a b = fl (a / b)"

definition fsqrt :: "real \<Rightarrow> real" where
  "fsqrt a = fl (sqrt a)"

definition toInt32 :: "int \<Rightarrow> 32 word" where
  "toInt32 n = word_of_int n"

section \<open>The host\<close>

text \<open>
  Three functions that the engine calls are left to the JavaScript implementation by the
  language standard: \<open>String.prototype.localeCompare\<close> (its result depends on the host's
  collation and default locale), \<open>Math.sin\<close> and \<open>Math.cos\<close> (implementation-approximated).
  They are the fields of a host, which every operation that reaches one of them takes as
  its first argument.
\<close>

record Host =
  localeCompare :: "string \<Rightarrow> string \<Rightarrow> int"
  mathSin :: "real \<Rightarrow> real"
  mathCos :: "real \<Rightarrow> real"

text \<open>
  \<open>arr.sort(comparefn)\<close>. The sort of the language is stable, and for a consistent comparison
  function the sorted order is then determined: it is the one that insertion produces. (For an
  inconsistent comparison function the standard leaves the order to the implementation.)
\<close>

fun insertSorted :: "('a \<Rightarrow> 'a \<Rightarrow> int) \<Rightarrow> 'a \<Rightarrow> 'a list \<Rightarrow> 'a list" where
  "insertSorted c x [] = [x]"
| "insertSorted c x (y # ys) = (if c x y \<le> 0 then x # y # ys else y # insertSorted c x ys)"

definition sortWith :: "('a \<Rightarrow> 'a \<Rightarrow> int) \<Rightarrow> 'a list \<Rightarrow> 'a list" where
  "sortWith c xs = foldr (insertSorted c) xs []"



section \<open>Objects and their keys\<close>

text \<open>
  A \<open>Record<string, T>\<close> is the list of its properties in the order of their creation, one
  entry per key. \<open>Object.keys\<close> enumerates the keys that are array indices (the canonical
  decimal numerals below \<open>2^32 - 1\<close>) first, in ascending numeric order, and then the other
  keys in creation order. A key that names a property of \<open>Object.prototype\<close> is outside
  the model.
\<close>

definition isDigit :: "char \<Rightarrow> bool" where
  "isDigit c = (48 \<le> (of_char c :: nat) \<and> (of_char c :: nat) \<le> 57)"

definition digitsValue :: "string \<Rightarrow> nat" where
  "digitsValue s = foldl (\<lambda>n c. 10 * n + ((of_char c :: nat) - 48)) 0 s"

definition arrayIndex :: "string \<Rightarrow> nat option" where
  "arrayIndex s =
     (if s \<noteq> [] \<and> list_all isDigit s \<and> (s = ''0'' \<or> hd s \<noteq> CHR ''0'') \<and>
         digitsValue s < 4294967295
      then Some (digitsValue s) else None)"

definition objectEntries :: "(string \<times> 'a) list \<Rightarrow> (string \<times> 'a) list" where
  "objectEntries m =
     sort_key (\<lambda>kv. case arrayIndex (fst kv) of None \<Rightarrow> 0 | Some n \<Rightarrow> n)
       (filter (\<lambda>kv. arrayIndex (fst kv) \<noteq> None) m)
     @ filter (\<lambda>kv. arrayIndex (fst kv) = None) m"

text \<open>\<open>obj[k]\<close>, and \<open>obj[k] = v\<close>: an existing key keeps its place, a new key is created last.\<close>

definition getProp :: "(string \<times> 'a) list \<Rightarrow> string \<Rightarrow> 'a option" where
  "getProp m k = map_of m k"

fun assign :: "(string \<times> 'a) list \<Rightarrow> string \<Rightarrow> 'a \<Rightarrow> (string \<times> 'a) list" where
  "assign [] k v = [(k, v)]"
| "assign ((k', v') # rest) k v = (if k' = k then (k, v) # rest else (k', v') # assign rest k v)"

section \<open>sim/prng.ts: the xorshift32 generator\<close>

text \<open>Source: \<^verbatim>\<open>src/engine/src/sim/prng.ts\<close>, lines 1 to 84.\<close>

text \<open>Class \<open>PRNG\<close> has the single private field \<open>state\<close>, read by \<open>getState\<close>.\<close>

datatype PRNG = PRNG (getState: int)

text \<open>\<open>constructor(seed)\<close>: \<open>this.state = seed || 0x12345678\<close>.\<close>

definition PRNG_new :: "int \<Rightarrow> PRNG" where
  "PRNG_new seed = PRNG (if seed = 0 then 0x12345678 else seed)"

definition setState :: "PRNG \<Rightarrow> int \<Rightarrow> PRNG" where
  "setState p s = PRNG s"

text \<open>
  \<open>next()\<close>: three xor-shift steps on the 32-bit view of the state; the state is left as a
  signed 32-bit value and the result is its unsigned reading (\<open>state >>> 0\<close>).
\<close>

definition xorshift32 :: "32 word \<Rightarrow> 32 word" where
  "xorshift32 s0 =
     (let s1 = s0 XOR push_bit 13 s0;
          s2 = s1 XOR drop_bit 17 s1;
          s3 = s2 XOR push_bit 5 s2
      in s3)"

definition prng_next :: "PRNG \<Rightarrow> int \<times> PRNG" where
  "prng_next p =
     (let s = xorshift32 (toInt32 (getState p)) in (uint s, PRNG (sint s)))"

text \<open>\<open>nextFloat()\<close>: \<open>(this.next() >>> 0) / 0xffffffff\<close>.\<close>

definition nextFloat :: "PRNG \<Rightarrow> real \<times> PRNG" where
  "nextFloat p = (let (n, p') = prng_next p in (fdiv (real_of_int n) 0xffffffff, p'))"

text \<open>\<open>nextInt(min, max)\<close>: \<open>min + Math.floor(this.nextFloat() * (max - min + 1))\<close>.\<close>

definition nextInt :: "PRNG \<Rightarrow> int \<Rightarrow> int \<Rightarrow> int \<times> PRNG" where
  "nextInt p lo hi =
     (let range = hi - lo + 1; (f, p') = nextFloat p
      in (lo + \<lfloor>fmul f (real_of_int range)\<rfloor>, p'))"

text \<open>\<open>createPRNG(seed?)\<close>: \<open>new PRNG(seed || 0x12345678)\<close>; an absent seed is \<open>None\<close>.\<close>

definition createPRNG :: "int option \<Rightarrow> PRNG" where
  "createPRNG seed =
     PRNG_new (case seed of None \<Rightarrow> 0x12345678
               | Some s \<Rightarrow> if s = 0 then 0x12345678 else s)"

section \<open>physics/aabb.ts\<close>

text \<open>Source: \<^verbatim>\<open>src/engine/src/physics/aabb.ts\<close>, lines 1 to 48.\<close>

record AABB =
  a_x :: real
  a_y :: real
  a_w :: real
  a_h :: real

definition intersects :: "AABB \<Rightarrow> AABB \<Rightarrow> bool" where
  "intersects a b =
     (\<not> (fadd (a_x a) (a_w a) \<le> a_x b \<or> fadd (a_x b) (a_w b) \<le> a_x a \<or>
         fadd (a_y a) (a_h a) \<le> a_y b \<or> fadd (a_y b) (a_h b) \<le> a_y a))"

text \<open>\<open>resolve(a, b)\<close>: the minimal translation vector, with \<open>eps = 1e-6\<close>.\<close>

definition resolve :: "AABB \<Rightarrow> AABB \<Rightarrow> real \<times> real" where
  "resolve a b =
     (let ax = fadd (a_x a) (fdiv (a_w a) 2);
          ay = fadd (a_y a) (fdiv (a_h a) 2);
          cx = fadd (a_x b) (fdiv (a_w b) 2);
          cy = fadd (a_y b) (fdiv (a_h b) 2);
          dx = fsub ax cx;
          dy = fsub ay cy;
          px = fsub (fdiv (fadd (a_w a) (a_w b)) 2) \<bar>dx\<bar>;
          py = fsub (fdiv (fadd (a_h a) (a_h b)) 2) \<bar>dy\<bar>
      in if px \<le> 0 \<or> py \<le> 0 then (0, 0)
         else let eps = fl (1 / 1000000) in
           if px < py
           then (let val = (if dx > 0 then px else - px)
                 in (fadd val (if val > 0 then eps else - eps), 0))
           else (let val = (if dy > 0 then py else - py)
                 in (0, fadd val (if val > 0 then eps else - eps))))"

section \<open>weapon/types.ts and player/inventory.ts: data\<close>

text \<open>
  Source: \<^verbatim>\<open>src/engine/src/weapon/types.ts\<close>, lines 26 to 31 (\<open>WeaponState\<close>), and
  \<^verbatim>\<open>src/engine/src/physics/aabb.ts\<close>, lines 56 to 83 (the inventory, which follows the
  box helpers in that file).
\<close>

record WeaponState =
  weaponId :: string
  currentAmmo :: int
  isReloading :: bool
  reloadTicksRemaining :: int

text \<open>\<open>reserveAmmo\<close> is a \<open>Record<string, number>\<close>: a finite map from weapon ids.\<close>

record InventoryState =
  weapons :: "WeaponState list"
  activeWeaponSlot :: int
  reserveAmmo :: "(string \<times> int) list"

definition createDefaultInventory :: InventoryState where
  "createDefaultInventory =
     \<lparr> weapons =
         [\<lparr> weaponId = ''pickaxe_standard'', currentAmmo = 0, isReloading = False,
            reloadTicksRemaining = 0 \<rparr>,
          \<lparr> weaponId = ''ar_standard'', currentAmmo = 30, isReloading = False,
            reloadTicksRemaining = 0 \<rparr>],
       activeWeaponSlot = 0,
       reserveAmmo = [(''ar_standard'', 90)] \<rparr>"

section \<open>state.ts: the data model\<close>

text \<open>
  Source: \<^verbatim>\<open>src/engine/src/sim/hash.ts\<close>, lines 97 to 430 (the state module follows the
  hashing module in that file).
\<close>

datatype EntityType = Player | Bullet | BuildPiece | Item

record JumpState =
  jumpStartTick :: "int option"
  jumpVel :: "real option"

text \<open>
  Type \<open>Entity\<close>. An optional property is an \<open>option\<close>: \<open>None\<close> is \<open>undefined\<close>.
  The selectors carry the prefix \<open>e_\<close>. \<open>MaterialType\<close> and \<open>BuildType\<close> are string enums
  and are kept as the strings they serialise to.
\<close>

record Entity =
  e_id :: string
  e_type :: EntityType
  e_x :: real
  e_y :: real
  e_w :: real
  e_h :: real
  e_vx :: real
  e_vy :: real
  e_hp :: real
  e_lifetime :: "real option"
  e_owner :: "string option"
  e_inventory :: "InventoryState option"
  e_material :: "string option"
  e_buildType :: "string option"
  e_rot :: "real option"
  e_editState :: "int option"
  e_itemType :: "string option"
  e_respawnTime :: "real option"
  e_team :: "int option"
  e_isCrouching :: "bool option"
  e_isSprinting :: "bool option"
  e_onGround :: "bool option"
  e_jumpState :: "JumpState option"
  e_fallStartY :: "real option"
  e_movementMomentum :: "real option"
  e_maxWalkSpeed :: "real option"
  e_walkAccel :: "real option"
  e_airControlFactor :: "real option"
  e_crouchSpeedMultiplier :: "real option"
  e_sprintSpeedMultiplier :: "real option"

record State =
  tick :: int
  entities :: "Entity list"
  rng :: "int option"
  lastChecksum :: "string option"

text \<open>
  Type \<open>Input\<close>. The optional flags are only ever tested for truthiness, so an absent flag
  is \<open>False\<close>.
\<close>

record Input =
  seq :: int
  clientId :: string
  dx :: real
  dy :: real
  shoot :: bool
  jump :: bool
  crouch :: bool
  sprint :: bool

text \<open>
  A \<open>Record<string, Input>\<close> is the list of its properties in creation order, with one
  entry per key.
\<close>

type_synonym InputMap = "(string \<times> Input) list"

text \<open>An object literal that sets only the nine common fields.\<close>

definition baseEntity ::
  "string \<Rightarrow> EntityType \<Rightarrow> real \<Rightarrow> real \<Rightarrow> real \<Rightarrow> real \<Rightarrow> real \<Rightarrow> real \<Rightarrow> real \<Rightarrow> Entity" where
  "baseEntity i t x y w h vx vy hp =
     \<lparr> e_id = i, e_type = t, e_x = x, e_y = y, e_w = w, e_h = h, e_vx = vx, e_vy = vy,
       e_hp = hp, e_lifetime = None, e_owner = None, e_inventory = None, e_material = None,
       e_buildType = None, e_rot = None, e_editState = None, e_itemType = None,
       e_respawnTime = None, e_team = None, e_isCrouching = None, e_isSprinting = None,
       e_onGround = None, e_jumpState = None, e_fallStartY = None, e_movementMomentum = None,
       e_maxWalkSpeed = None, e_walkAccel = None, e_airControlFactor = None,
       e_crouchSpeedMultiplier = None, e_sprintSpeedMultiplier = None \<rparr>"

definition createState :: "int \<Rightarrow> int option \<Rightarrow> State" where
  "createState startTick seed =
     \<lparr> tick = startTick, entities = [], rng = seed, lastChecksum = None \<rparr>"

definition createPlayer :: "string \<Rightarrow> real \<Rightarrow> real \<Rightarrow> Entity" where
  "createPlayer i x y =
     (baseEntity i Player x y 1 (fl (18 / 10)) 0 0 100)
       \<lparr> e_inventory := Some createDefaultInventory,
         e_isCrouching := Some False,
         e_isSprinting := Some False,
         e_onGround := Some True,
         e_jumpState := Some \<lparr> jumpStartTick = None, jumpVel = None \<rparr>,
         e_movementMomentum := Some 0,
         e_maxWalkSpeed := Some 5,
         e_walkAccel := Some 20,
         e_airControlFactor := Some (fl (3 / 10)),
         e_crouchSpeedMultiplier := Some (1 / 2),
         e_sprintSpeedMultiplier := Some (fl (18 / 10)) \<rparr>"

definition createBullet ::
  "string \<Rightarrow> string \<Rightarrow> real \<Rightarrow> real \<Rightarrow> real \<Rightarrow> real \<Rightarrow> real \<Rightarrow> Entity" where
  "createBullet i owner x y vx vy lifetime =
     (baseEntity i Bullet x y (fl (2 / 10)) (fl (2 / 10)) vx vy 1)
       \<lparr> e_lifetime := Some lifetime, e_owner := Some owner \<rparr>"

definition createBuildPiece ::
  "string \<Rightarrow> string \<Rightarrow> string \<Rightarrow> string \<Rightarrow> real \<Rightarrow> real \<Rightarrow> real \<Rightarrow> real \<Rightarrow> real \<Rightarrow> real \<Rightarrow> Entity" where
  "createBuildPiece i owner buildType material x y w h rot hp =
     (baseEntity i BuildPiece x y w h 0 0 hp)
       \<lparr> e_owner := Some owner, e_material := Some material, e_buildType := Some buildType,
         e_rot := Some rot, e_editState := Some 0 \<rparr>"

text \<open>
  \<open>cloneState\<close> copies every entity object; in the model a list of records is already a
  value, so the copy is the same list.
\<close>

definition cloneState :: "State \<Rightarrow> State" where
  "cloneState s =
     \<lparr> tick = tick s, entities = map (\<lambda>e. e) (entities s), rng = rng s,
       lastChecksum = lastChecksum s \<rparr>"

subsection \<open>Shallow input application\<close>

text \<open>\<open>arr.find(p)\<close> followed by a mutation of the found object: the first match is updated.\<close>

fun updateFirst :: "('a \<Rightarrow> bool) \<Rightarrow> ('a \<Rightarrow> 'a) \<Rightarrow> 'a list \<Rightarrow> 'a list" where
  "updateFirst P f [] = []"
| "updateFirst P f (x # xs) = (if P x then f x # xs else x # updateFirst P f xs)"

definition applyInput :: "real \<Rightarrow> Input \<Rightarrow> Entity \<Rightarrow> Entity" where
  "applyInput dt input ent =
     (let e1 = ent\<lparr> e_vx := dx input, e_vy := dy input \<rparr>
      in e1\<lparr> e_x := fadd (e_x e1) (fmul (e_vx e1) dt),
             e_y := fadd (e_y e1) (fmul (e_vy e1) dt) \<rparr>)"

text \<open>The loop over \<open>Object.keys(inputs)\<close>, given the entries in enumeration order.\<close>

fun applyPlayerInputs :: "real \<Rightarrow> InputMap \<Rightarrow> Entity list \<Rightarrow> Entity list" where
  "applyPlayerInputs dt [] es = es"
| "applyPlayerInputs dt ((cid, input) # rest) es =
     applyPlayerInputs dt rest
       (updateFirst (\<lambda>x. e_id x = cid \<and> e_type x = Player) (applyInput dt input) es)"

text \<open>
  The bullet loop visits every index once, from the last to the first, and either keeps the
  advanced entity or splices it out; \<open>None\<close> is the splice.
\<close>

definition advanceBullet :: "real \<Rightarrow> Entity \<Rightarrow> Entity option" where
  "advanceBullet dt e =
     (if e_type e = Bullet
      then (let e1 = e\<lparr> e_x := fadd (e_x e) (fmul (e_vx e) dt),
                         e_y := fadd (e_y e) (fmul (e_vy e) dt) \<rparr>
            in case e_lifetime e1 of
                 None \<Rightarrow> Some e1
               | Some l \<Rightarrow> if fsub l 1 \<le> 0 then None
                           else Some (e1\<lparr> e_lifetime := Some (fsub l 1) \<rparr>))
      else Some e)"

definition applyInputsShallow :: "State \<Rightarrow> InputMap \<Rightarrow> real \<Rightarrow> State" where
  "applyInputsShallow s inputs dt =
     (let next = (cloneState s)\<lparr> tick := tick s + 1 \<rparr>;
          next1 = next\<lparr> entities :=
                    applyPlayerInputs dt (objectEntries inputs) (entities next) \<rparr>
      in next1\<lparr> entities := List.map_filter (advanceBullet dt) (entities next1) \<rparr>)"

subsection \<open>Snapshots\<close>

text \<open>
  Type \<open>Snapshot\<close>: the object that \<open>JSON.stringify\<close> writes and \<open>JSON.parse\<close> reads back.
  The JSON text itself is not modelled: a snapshot value stands for its text, a property
  whose value is \<open>undefined\<close> is left out of the text and reads back as \<open>undefined\<close>.
\<close>

record SnapEntity =
  s_id :: string
  s_type :: EntityType
  s_x :: real
  s_y :: real
  s_w :: real
  s_h :: real
  s_vx :: real
  s_vy :: real
  s_hp :: real
  s_lifetime :: "real option"
  s_owner :: "string option"
  s_inventory :: "InventoryState option"
  s_material :: "string option"
  s_buildType :: "string option"
  s_rot :: "real option"
  s_editState :: "int option"
  s_isCrouching :: "bool option"
  s_isSprinting :: "bool option"
  s_onGround :: "bool option"
  s_jumpState :: "JumpState option"
  s_fallStartY :: "real option"
  s_movementMomentum :: "real option"
  s_maxWalkSpeed :: "real option"
  s_walkAccel :: "real option"
  s_airControlFactor :: "real option"
  s_crouchSpeedMultiplier :: "real option"
  s_sprintSpeedMultiplier :: "real option"

record Snapshot =
  snap_tick :: int
  snap_entities :: "SnapEntity list"

definition serializeEntity :: "Entity \<Rightarrow> SnapEntity" where
  "serializeEntity e =
     \<lparr> s_id = e_id e, s_type = e_type e, s_x = e_x e, s_y = e_y e, s_w = e_w e, s_h = e_h e,
       s_vx = e_vx e, s_vy = e_vy e, s_hp = e_hp e, s_lifetime = e_lifetime e,
       s_owner = e_owner e, s_inventory = e_inventory e, s_material = e_material e,
       s_buildType = e_buildType e, s_rot = e_rot e, s_editState = e_editState e,
       s_isCrouching = e_isCrouching e, s_isSprinting = e_isSprinting e,
       s_onGround = e_onGround e, s_jumpState = e_jumpState e,
       s_fallStartY = e_fallStartY e, s_movementMomentum = e_movementMomentum e,
       s_maxWalkSpeed = e_maxWalkSpeed e, s_walkAccel = e_walkAccel e,
       s_airControlFactor = e_airControlFactor e,
       s_crouchSpeedMultiplier = e_crouchSpeedMultiplier e,
       s_sprintSpeedMultiplier = e_sprintSpeedMultiplier e \<rparr>"

definition serializeSnapshot :: "State \<Rightarrow> Snapshot" where
  "serializeSnapshot s =
     \<lparr> snap_tick = tick s, snap_entities = map serializeEntity (entities s) \<rparr>"

text \<open>\<open>v || 0\<close> on an optional number.\<close>

definition orZero :: "'a::zero option \<Rightarrow> 'a" where
  "orZero v = (case v of None \<Rightarrow> 0 | Some r \<Rightarrow> r)"

definition deserializeEntity :: "SnapEntity \<Rightarrow> Entity" where
  "deserializeEntity e =
     (if s_type e = Bullet then
        (baseEntity (s_id e) Bullet (s_x e) (s_y e) (s_w e) (s_h e) (s_vx e) (s_vy e) (s_hp e))
          \<lparr> e_owner := s_owner e, e_lifetime := s_lifetime e \<rparr>
      else if s_type e = BuildPiece then
        (baseEntity (s_id e) BuildPiece (s_x e) (s_y e) (s_w e) (s_h e) (s_vx e) (s_vy e)
            (s_hp e))
          \<lparr> e_owner := s_owner e, e_buildType := s_buildType e, e_material := s_material e,
            e_rot := Some (orZero (s_rot e)), e_editState := Some (orZero (s_editState e)) \<rparr>
      else
        (baseEntity (s_id e) Player (s_x e) (s_y e) (s_w e) (s_h e) (s_vx e) (s_vy e) (s_hp e))
          \<lparr> e_inventory := s_inventory e,
            e_isCrouching := s_isCrouching e,
            e_isSprinting := s_isSprinting e,
            e_onGround := s_onGround e,
            e_jumpState := s_jumpState e,
            e_fallStartY := s_fallStartY e,
            e_movementMomentum := s_movementMomentum e,
            e_maxWalkSpeed := s_maxWalkSpeed e,
            e_walkAccel := s_walkAccel e,
            e_airControlFactor := s_airControlFactor e,
            e_crouchSpeedMultiplier := s_crouchSpeedMultiplier e,
            e_sprintSpeedMultiplier := s_sprintSpeedMultiplier e \<rparr>)"

definition deserializeSnapshot :: "Snapshot \<Rightarrow> State" where
  "deserializeSnapshot snap =
     \<lparr> tick = snap_tick snap, entities = map deserializeEntity (snap_entities snap),
       rng = None, lastChecksum = None \<rparr>"

text \<open>\<open>reconcile(snapshotJson, bufferedInputs, tickRate)\<close>.\<close>

definition reconcile :: "Snapshot \<Rightarrow> InputMap list \<Rightarrow> real \<Rightarrow> State" where
  "reconcile snapshotJson bufferedInputs tickRate =
     (let dt = fdiv 1 tickRate
      in foldl (\<lambda>state inputs. applyInputsShallow state inputs dt)
           (deserializeSnapshot snapshotJson) bufferedInputs)"

section \<open>Well-formed entities\<close>

text \<open>
  The variant table of the data model: players carry an inventory, movement state and an
  optional team; bullets carry an owner and a lifetime; build pieces carry an owner, a build
  type, a material, a rotation and an edit state; items carry an item type and a respawn
  time. An entity is well-formed when it has no optional field of another variant.
\<close>

definition wellFormed :: "Entity \<Rightarrow> bool" where
  "wellFormed e =
     (case e_type e of
        Player \<Rightarrow>
          e_lifetime e = None \<and> e_owner e = None \<and> e_material e = None \<and>
          e_buildType e = None \<and> e_rot e = None \<and> e_editState e = None \<and>
          e_itemType e = None \<and> e_respawnTime e = None
      | Bullet \<Rightarrow>
          e_inventory e = None \<and> e_material e = None \<and> e_buildType e = None \<and>
          e_rot e = None \<and> e_editState e = None \<and> e_itemType e = None \<and>
          e_respawnTime e = None \<and> e_team e = None \<and> e_isCrouching e = None \<and>
          e_isSprinting e = None \<and> e_onGround e = None \<and> e_jumpState e = None \<and>
          e_fallStartY e = None \<and> e_movementMomentum e = None \<and>
          e_maxWalkSpeed e = None \<and> e_walkAccel e = None \<and>
          e_airControlFactor e = None \<and> e_crouchSpeedMultiplier e = None \<and>
          e_sprintSpeedMultiplier e = None
      | BuildPiece \<Rightarrow>
          e_rot e \<noteq> None \<and> e_editState e \<noteq> None \<and>
          e_lifetime e = None \<and> e_inventory e = None \<and> e_itemType e = None \<and>
          e_respawnTime e = None \<and> e_team e = None \<and> e_isCrouching e = None \<and>
          e_isSprinting e = None \<and> e_onGround e = None \<and> e_jumpState e = None \<and>
          e_fallStartY e = None \<and> e_movementMomentum e = None \<and>
          e_maxWalkSpeed e = None \<and> e_walkAccel e = None \<and>
          e_airControlFactor e = None \<and> e_crouchSpeedMultiplier e = None \<and>
          e_sprintSpeedMultiplier e = None
      | Item \<Rightarrow>
          e_lifetime e = None \<and> e_owner e = None \<and> e_inventory e = None \<and>
          e_material e = None \<and> e_buildType e = None \<and> e_rot e = None \<and>
          e_editState e = None \<and> e_team e = None \<and> e_isCrouching e = None \<and>
          e_isSprinting e = None \<and> e_onGround e = None \<and> e_jumpState e = None \<and>
          e_fallStartY e = None \<and> e_movementMomentum e = None \<and>
          e_maxWalkSpeed e = None \<and> e_walkAccel e = None \<and>
          e_airControlFactor e = None \<and> e_crouchSpeedMultiplier e = None \<and>
          e_sprintSpeedMultiplier e = None)"

section \<open>player/movement.ts\<close>

text \<open>Source: \<^verbatim>\<open>src/unnamed/part_005\<close>.\<close>

definition GRAVITY :: real where "GRAVITY = 20"
definition JUMP_IMPULSE :: real where "JUMP_IMPULSE = 8"
definition FRICTION :: real where "FRICTION = 15"
definition AIR_RESISTANCE :: real where "AIR_RESISTANCE = 2"
definition SLIDE_IMPULSE :: real where "SLIDE_IMPULSE = 3"
definition FALL_DAMAGE_THRESHOLD :: real where "FALL_DAMAGE_THRESHOLD = 10"
definition FALL_DAMAGE_RATE :: real where "FALL_DAMAGE_RATE = 5"

text \<open>Truthiness of an optional boolean, and \<open>v || d\<close> on an optional number.\<close>

definition truthy :: "bool option \<Rightarrow> bool" where
  "truthy b = (b = Some True)"

definition orDefault :: "real option \<Rightarrow> real \<Rightarrow> real" where
  "orDefault v d = (case v of None \<Rightarrow> d | Some r \<Rightarrow> if r = 0 then d else r)"

text \<open>
  The acceleration step shared by ground and air movement:
  \<open>v += Math.sign(dv) * Math.min(Math.abs(dv), limit)\<close> with \<open>dv = desired - v\<close>.
\<close>

definition accelToward :: "real \<Rightarrow> real \<Rightarrow> real \<Rightarrow> real" where
  "accelToward v desired limit =
     (let dv = fsub desired v in fadd v (fmul (sgn dv) (min \<bar>dv\<bar> limit)))"

definition applyFriction :: "real \<Rightarrow> real \<Rightarrow> real" where
  "applyFriction v frictionForce =
     (if \<bar>v\<bar> < frictionForce then 0 else fsub v (fmul (sgn v) frictionForce))"

definition applyGroundMovement :: "Entity \<Rightarrow> Input \<Rightarrow> real \<Rightarrow> Entity" where
  "applyGroundMovement entity input dt =
     (if \<not> truthy (e_onGround entity) then entity
      else
        let maxSpeed = orDefault (e_maxWalkSpeed entity) 5;
            accel = orDefault (e_walkAccel entity) 20;
            m0 = (1::real);
            m1 = (if truthy (e_isCrouching entity)
                  then fmul m0 (orDefault (e_crouchSpeedMultiplier entity) (1 / 2)) else m0);
            speedMultiplier =
                 (if truthy (e_isSprinting entity) \<and> \<not> truthy (e_isCrouching entity)
                  then fmul m1 (orDefault (e_sprintSpeedMultiplier entity) (fl (18 / 10)))
                  else m1);
            targetSpeed = fmul maxSpeed speedMultiplier;
            inputMagnitude = fsqrt (fadd (fmul (dx input) (dx input))
                                         (fmul (dy input) (dy input)));
            desiredVx = (if inputMagnitude > 0
                         then fmul (fdiv (dx input) inputMagnitude) targetSpeed else 0);
            desiredVy = (if inputMagnitude > 0
                         then fmul (fdiv (dy input) inputMagnitude) targetSpeed else 0);
            vx1 = accelToward (e_vx entity) desiredVx (fmul accel dt);
            vy1 = accelToward (e_vy entity) desiredVy (fmul accel dt);
            frictionForce = fmul FRICTION dt;
            vx2 = (if inputMagnitude = 0 then applyFriction vx1 frictionForce else vx1);
            vy2 = (if inputMagnitude = 0 then applyFriction vy1 frictionForce else vy1);
            currentSpeed = fsqrt (fadd (fmul vx2 vx2) (fmul vy2 vy2))
        in entity\<lparr> e_vx := vx2, e_vy := vy2, e_movementMomentum := Some currentSpeed \<rparr>)"

definition applyAirMovement :: "Entity \<Rightarrow> Input \<Rightarrow> real \<Rightarrow> Entity" where
  "applyAirMovement entity input dt =
     (if truthy (e_onGround entity) then entity
      else
        let maxSpeed = orDefault (e_maxWalkSpeed entity) 5;
            airControl = orDefault (e_airControlFactor entity) (fl (3 / 10));
            accel = fmul (orDefault (e_walkAccel entity) 20) airControl;
            inputMagnitude = fsqrt (fadd (fmul (dx input) (dx input))
                                         (fmul (dy input) (dy input)));
            desiredVx = (if inputMagnitude > 0
                         then fmul (fdiv (dx input) inputMagnitude) maxSpeed else 0);
            desiredVy = (if inputMagnitude > 0
                         then fmul (fdiv (dy input) inputMagnitude) maxSpeed else 0);
            vx1 = accelToward (e_vx entity) desiredVx (fmul accel dt);
            vy1 = accelToward (e_vy entity) desiredVy (fmul accel dt);
            resistance = fmul AIR_RESISTANCE dt
        in entity\<lparr> e_vx := fmul vx1 (max 0 (fsub 1 resistance)),
                    e_vy := fmul vy1 (max 0 (fsub 1 resistance)) \<rparr>)"

text \<open>
  \<open>jump\<close>: \<open>entity.jumpState?.jumpStartTick === worldTick\<close> is false when either the jump
  state or its tick is undefined.
\<close>

definition jump_ent :: "Entity \<Rightarrow> Input \<Rightarrow> int \<Rightarrow> Entity" where
  "jump_ent entity input worldTick =
     (if \<not> truthy (e_onGround entity) \<or> \<not> jump input then entity
      else if (case e_jumpState entity of None \<Rightarrow> False
               | Some js \<Rightarrow> jumpStartTick js = Some worldTick) then entity
      else entity\<lparr> e_vy := JUMP_IMPULSE,
                   e_onGround := Some False,
                   e_jumpState := Some \<lparr> jumpStartTick = Some worldTick,
                                         jumpVel = Some JUMP_IMPULSE \<rparr>,
                   e_fallStartY := Some (e_y entity) \<rparr>)"

text \<open>
  The loop of \<open>applyGravity\<close> over the ground entities: it returns the height of the first
  ground entity the player's box intersects and was above before the move (the \<open>break\<close>).
\<close>

fun landOn :: "string \<Rightarrow> AABB \<Rightarrow> real \<Rightarrow> Entity list \<Rightarrow> real option" where
  "landOn pid playerAABB prevY [] = None"
| "landOn pid playerAABB prevY (ground # rest) =
     (if e_id ground = pid then landOn pid playerAABB prevY rest
      else if intersects playerAABB
                \<lparr> a_x = e_x ground, a_y = e_y ground, a_w = e_w ground, a_h = e_h ground \<rparr>
              \<and> prevY \<ge> fadd (e_y ground) (e_h ground)
           then Some (fadd (e_y ground) (e_h ground))
           else landOn pid playerAABB prevY rest)"

text \<open>
  \<open>applyGravity\<close>. The player's box is taken after the move and before the floor check, as
  the source builds it; \<open>hitGround\<close> is set by the floor at \<open>y = 0\<close> or by a ground entity.
\<close>

definition applyGravity :: "Entity \<Rightarrow> real \<Rightarrow> Entity list \<Rightarrow> Entity" where
  "applyGravity entity dt groundEntities =
     (if truthy (e_onGround entity) then entity
      else
        let e1 = entity\<lparr> e_vy := fsub (e_vy entity) (fmul GRAVITY dt) \<rparr>;
            prevY = e_y e1;
            e2 = e1\<lparr> e_y := fadd (e_y e1) (fmul (e_vy e1) dt) \<rparr>;
            playerAABB = \<lparr> a_x = e_x e2, a_y = e_y e2, a_w = e_w e2, a_h = e_h e2 \<rparr>;
            floorHit = (e_y e2 \<le> 0);
            e3 = (if floorHit then e2\<lparr> e_y := 0, e_vy := 0 \<rparr> else e2);
            landed = landOn (e_id entity) playerAABB prevY groundEntities;
            e4 = (case landed of None \<Rightarrow> e3 | Some topY \<Rightarrow> e3\<lparr> e_y := topY, e_vy := 0 \<rparr>);
            hitGround = (floorHit \<or> landed \<noteq> None)
        in if hitGround \<and> \<not> truthy (e_onGround e4)
           then e4\<lparr> e_onGround := Some True,
                    e_jumpState := Some \<lparr> jumpStartTick = None, jumpVel = None \<rparr> \<rparr>
           else e4)"

definition applyCrouchSlide :: "Entity \<Rightarrow> Input \<Rightarrow> real \<Rightarrow> Entity" where
  "applyCrouchSlide entity input dt =
     (let e1 =
            (if crouch input then
               (if \<not> truthy (e_isCrouching entity) then
                  (let c = entity\<lparr> e_isCrouching := Some True \<rparr>
                   in if truthy (e_isSprinting c) \<and> truthy (e_onGround c) \<and>
                         orZero (e_movementMomentum c) > 3
                      then (let currentSpeed = fsqrt (fadd (fmul (e_vx c) (e_vx c))
                                                           (fmul (e_vy c) (e_vy c)))
                            in if currentSpeed > 0
                               then c\<lparr> e_vx := fadd (e_vx c)
                                                (fmul (fdiv (e_vx c) currentSpeed) SLIDE_IMPULSE),
                                      e_vy := fadd (e_vy c)
                                                (fmul (fdiv (e_vy c) currentSpeed) SLIDE_IMPULSE) \<rparr>
                               else c)
                      else c)
                else entity)
             else entity\<lparr> e_isCrouching := Some False \<rparr>)
      in if sprint input \<and> \<not> truthy (e_isCrouching e1)
         then e1\<lparr> e_isSprinting := Some True \<rparr>
         else e1\<lparr> e_isSprinting := Some False \<rparr>)"

text \<open>\<open>computeFallDamage\<close> returns the damage and mutates the entity.\<close>

definition computeFallDamage :: "Entity \<Rightarrow> real \<times> Entity" where
  "computeFallDamage entity =
     (case e_fallStartY entity of
        None \<Rightarrow> (0, entity)
      | Some fallStartY \<Rightarrow>
          if \<not> truthy (e_onGround entity) then (0, entity)
          else
            let fallDistance = fsub fallStartY (e_y entity);
                e1 = entity\<lparr> e_fallStartY := None \<rparr>
            in if fallDistance \<le> FALL_DAMAGE_THRESHOLD then (0, e1)
               else
                 let excessDistance = fsub fallDistance FALL_DAMAGE_THRESHOLD;
                     damage = real_of_int \<lfloor>fmul excessDistance FALL_DAMAGE_RATE\<rfloor>
                 in (damage, e1\<lparr> e_hp := max 0 (fsub (e_hp e1) damage) \<rparr>))"

definition processEntityMovement ::
  "Entity \<Rightarrow> Input \<Rightarrow> real \<Rightarrow> int \<Rightarrow> Entity list \<Rightarrow> Entity" where
  "processEntityMovement entity input dt worldTick groundEntities =
     (if e_type entity \<noteq> Player then entity
      else
        let e1 = applyCrouchSlide entity input dt;
            e2 = jump_ent e1 input worldTick;
            e3 = (if truthy (e_onGround e2) then applyGroundMovement e2 input dt
                  else applyAirMovement e2 input dt);
            e4 = applyGravity e3 dt groundEntities
        in snd (computeFallDamage e4))"

section \<open>sim/movement.ts\<close>

text \<open>Source: \<^verbatim>\<open>src/unnamed/part_008\<close>, lines 263 to 322.\<close>

text \<open>
  \<open>processMovement\<close> works on the entity objects of the state through two arrays of
  references: the players sorted by id with the host's \<open>localeCompare\<close>, and the ground
  entities. An object is identified by its index in \<open>state.entities\<close>; a mutation of a player
  is an update at its index, and the ground entities are read from the current list, so
  that a player processed earlier is seen at its new position.
\<close>

definition defaultInput :: "string \<Rightarrow> Input" where
  "defaultInput pid =
     \<lparr> seq = 0, clientId = pid, dx = 0, dy = 0, shoot = False, jump = False, crouch = False,
       sprint = False \<rparr>"

definition playerOrder :: "Host \<Rightarrow> Entity list \<Rightarrow> nat list" where
  "playerOrder h es =
     sortWith (\<lambda>i j. localeCompare h (e_id (es ! i)) (e_id (es ! j)))
       (filter (\<lambda>i. e_type (es ! i) = Player) [0 ..< length es])"

definition groundEntitiesOf :: "Entity list \<Rightarrow> Entity list" where
  "groundEntitiesOf es =
     filter (\<lambda>e. e_type e = BuildPiece \<or> (e_type e = Player \<and> e_id e \<noteq> ''current_player'')) es"

definition movePlayer :: "InputMap \<Rightarrow> real \<Rightarrow> int \<Rightarrow> Entity list \<Rightarrow> nat \<Rightarrow> Entity list" where
  "movePlayer inputs dt worldTick es i =
     (let player = es ! i;
          playerInput = (case getProp inputs (e_id player) of
                           None \<Rightarrow> defaultInput (e_id player) | Some inp \<Rightarrow> inp);
          p1 = processEntityMovement player playerInput dt worldTick (groundEntitiesOf es);
          p2 = p1\<lparr> e_x := fadd (e_x p1) (fmul (e_vx p1) dt),
                   e_y := fadd (e_y p1) (fmul (e_vy p1) dt) \<rparr>
      in es[i := p2])"

definition processMovement :: "Host \<Rightarrow> State \<Rightarrow> InputMap \<Rightarrow> real \<Rightarrow> int \<Rightarrow> State" where
  "processMovement h s inputs dt worldTick =
     s\<lparr> entities :=
          foldl (movePlayer inputs dt worldTick) (entities s) (playerOrder h (entities s)) \<rparr>"

section \<open>sim/hash.ts\<close>

text \<open>Source: \<^verbatim>\<open>src/engine/src/sim/hash.ts\<close>, lines 1 to 96.\<close>

text \<open>
  Strings are lists of 8-bit characters (code units below 256); \<open>charCodeAt\<close> is \<open>of_char\<close>.
  The hash accumulates in a JavaScript number between the bitwise steps; the sums stay far
  below \<open>2^53\<close>, so the value modulo \<open>2^32\<close> is the one a 32-bit word computes.
\<close>

definition fnv1aStep :: "32 word \<Rightarrow> char \<Rightarrow> 32 word" where
  "fnv1aStep hash c =
     (let h = hash XOR of_char c
      in h + (push_bit 1 h + push_bit 4 h + push_bit 7 h + push_bit 8 h + push_bit 24 h))"

definition fnv1aHash :: "string \<Rightarrow> nat" where
  "fnv1aHash str = unat (foldl fnv1aStep 0x811c9dc5 str)"

subsection \<open>Number and string formatting\<close>

definition digitChar :: "nat \<Rightarrow> char" where
  "digitChar d = (''0123456789abcdef'' ! d)"

fun showBase :: "nat \<Rightarrow> nat \<Rightarrow> string" where
  "showBase b n =
     (if b < 2 \<or> n < b then [digitChar n] else showBase b (n div b) @ [digitChar (n mod b)])"

declare showBase.simps [simp del]

text \<open>\<open>String(n)\<close> for an integer \<open>n\<close>, and \<open>n.toString(16)\<close> for an unsigned one.\<close>

definition showInt :: "int \<Rightarrow> string" where
  "showInt i = (if i < 0 then CHR ''-'' # showBase 10 (nat (- i)) else showBase 10 (nat i))"

definition toHex :: "nat \<Rightarrow> string" where
  "toHex n = showBase 16 n"

text \<open>A JSON string literal: quotes, backslashes and control characters are escaped.\<close>

definition escapeChar :: "char \<Rightarrow> string" where
  "escapeChar c =
     (if c = CHR 0x22 then [CHR 0x5C, CHR 0x22]
      else if c = CHR 0x5C then [CHR 0x5C, CHR 0x5C]
      else if c = CHR 0x08 then [CHR 0x5C, CHR ''b'']
      else if c = CHR 0x09 then [CHR 0x5C, CHR ''t'']
      else if c = CHR 0x0A then [CHR 0x5C, CHR ''n'']
      else if c = CHR 0x0C then [CHR 0x5C, CHR ''f'']
      else if c = CHR 0x0D then [CHR 0x5C, CHR ''r'']
      else if (of_char c :: nat) < 0x20
           then [CHR 0x5C, CHR ''u'', CHR ''0'', CHR ''0'',
                 digitChar (of_char c div 16), digitChar (of_char c mod 16)]
      else [c])"

definition jsonQuote :: "string \<Rightarrow> string" where
  "jsonQuote s = CHR 0x22 # concat (map escapeChar s) @ [CHR 0x22]"

fun joinWith :: "string \<Rightarrow> string list \<Rightarrow> string" where
  "joinWith sep [] = []"
| "joinWith sep [x] = x"
| "joinWith sep (x # y # ys) = x @ sep @ joinWith sep (y # ys)"

subsection \<open>Canonical JSON\<close>

text \<open>
  The values that are hashed: integers, strings, arrays and objects; \<open>JUndefined\<close> is a
  property whose value is \<open>undefined\<close>. An object lists its properties in creation order.
  A number is written in decimal notation, as \<open>JSON.stringify\<close> writes an integer below
  \<open>10^21\<close> in absolute value.
\<close>

datatype json = JUndefined | JNum int | JStr string | JArr "json list"
  | JObj "(string \<times> json) list"

text \<open>
  \<open>JSON.stringify(state, replacer)\<close> where the replacer rebuilds every object that is not an
  array by creating its properties in sorted key order (\<open>Object.keys(value).sort()\<close>, the
  order of the code units, which is the order of \<^typ>\<open>string\<close>). The rebuilt object is
  written in the enumeration order of its keys; properties whose value is \<open>undefined\<close> are
  not written.
\<close>

function canonicalJson :: "json \<Rightarrow> string" where
  "canonicalJson JUndefined = ''null''"
| "canonicalJson (JNum n) = showInt n"
| "canonicalJson (JStr s) = jsonQuote s"
| "canonicalJson (JArr xs) = ''['' @ joinWith '','' (map canonicalJson xs) @ '']''"
| "canonicalJson (JObj kvs) =
     ''{'' @ joinWith '',''
        (map (\<lambda>kv. jsonQuote (fst kv) @ '':'' @ canonicalJson (snd kv))
          (filter (\<lambda>kv. snd kv \<noteq> JUndefined) (objectEntries (sort_key fst kvs)))) @ ''}''"
  by pat_completeness auto

termination canonicalJson
proof (relation "measure size")
  show "wf (measure size)" by simp
next
  fix xs :: "json list" and x
  assume "x \<in> set xs"
  then have "size x < Suc (size_list size xs)"
    by (induction xs) auto
  then show "(x, JArr xs) \<in> measure size" by simp
next
  fix kvs :: "(string \<times> json) list" and kv
  assume "kv \<in> set (filter (\<lambda>kv. snd kv \<noteq> JUndefined) (objectEntries (sort_key fst kvs)))"
  then have "kv \<in> set kvs" by (auto simp add: objectEntries_def)
  then have "size (snd kv) < Suc (size_list (size_prod (\<lambda>x. 0) size) kvs)"
  proof (induction kvs)
    case Nil
    then show ?case by simp
  next
    case (Cons a kvs)
    show ?case
    proof (cases "kv = a")
      case True
      then show ?thesis by (cases a) simp
    next
      case False
      with Cons show ?thesis by simp
    qed
  qed
  then show "(snd kv, JObj kvs) \<in> measure size" by simp
qed

definition hashState :: "json \<Rightarrow> string" where
  "hashState v = toHex (fnv1aHash (canonicalJson v))"

text \<open>\<open>Math.round\<close> rounds half up.\<close>

definition mathRound :: "real \<Rightarrow> int" where
  "mathRound v = \<lfloor>v + 1 / 2\<rfloor>"

text \<open>\<open>quantizeValue(value, precision = 1000)\<close>: \<open>Math.round(value * precision)\<close>.\<close>

definition quantizeValue :: "real \<Rightarrow> int" where
  "quantizeValue v = mathRound (fmul v 1000)"

definition typeString :: "EntityType \<Rightarrow> string" where
  "typeString t =
     (case t of Player \<Rightarrow> ''player'' | Bullet \<Rightarrow> ''bullet'' | BuildPiece \<Rightarrow> ''build_piece''
      | Item \<Rightarrow> ''item'')"

definition optStr :: "string option \<Rightarrow> json" where
  "optStr v = (case v of None \<Rightarrow> JUndefined | Some s \<Rightarrow> JStr s)"

definition quantizeEntity :: "Entity \<Rightarrow> json" where
  "quantizeEntity entity =
     JObj [(''id'', JStr (e_id entity)),
           (''type'', JStr (typeString (e_type entity))),
           (''x'', JNum (quantizeValue (e_x entity))),
           (''y'', JNum (quantizeValue (e_y entity))),
           (''vx'', JNum (quantizeValue (e_vx entity))),
           (''vy'', JNum (quantizeValue (e_vy entity))),
           (''hp'', JNum (quantizeValue (e_hp entity))),
           (''w'', JNum (quantizeValue (e_w entity))),
           (''h'', JNum (quantizeValue (e_h entity))),
           (''lifetime'', (case e_lifetime entity of None \<Rightarrow> JUndefined
                           | Some l \<Rightarrow> if l = 0 then JUndefined else JNum (quantizeValue l))),
           (''owner'', optStr (e_owner entity)),
           (''material'', optStr (e_material entity)),
           (''buildType'', optStr (e_buildType entity)),
           (''rot'', (case e_rot entity of None \<Rightarrow> JUndefined
                      | Some r \<Rightarrow> JNum (quantizeValue r))),
           (''editState'', (case e_editState entity of None \<Rightarrow> JUndefined
                            | Some n \<Rightarrow> JNum n))]"

text \<open>The \<open>id\<close> property of a quantised entity object.\<close>

definition jsonId :: "json \<Rightarrow> string" where
  "jsonId v =
     (case v of
        JObj kvs \<Rightarrow> (case map_of kvs ''id'' of Some (JStr i) \<Rightarrow> i | _ \<Rightarrow> [])
      | _ \<Rightarrow> [])"

text \<open>
  \<open>createQuantizedSnapshot\<close>: the quantised objects, sorted with
  \<open>(a, b) => a.id.localeCompare(b.id)\<close>.
\<close>

definition createQuantizedSnapshot :: "Host \<Rightarrow> Entity list \<Rightarrow> json list" where
  "createQuantizedSnapshot h es =
     sortWith (\<lambda>a b. localeCompare h (jsonId a) (jsonId b)) (map quantizeEntity es)"

definition computeStateChecksum :: "Host \<Rightarrow> State \<Rightarrow> string" where
  "computeStateChecksum h s =
     hashState
       (JObj [(''tick'', JNum (tick s)),
              (''entities'', JArr (createQuantizedSnapshot h (entities s))),
              (''rng'', (case rng s of None \<Rightarrow> JUndefined | Some r \<Rightarrow> JNum r))])"
section \<open>Exceptions\<close>

text \<open>
  A thrown exception is the left summand of a result. The engine throws in two places:
  \<open>getWeaponConfig\<close> throws on an unknown weapon id, and reading a property of an inventory
  slot that does not exist is a \<open>TypeError\<close>.
\<close>

datatype error = TypeError | WeaponConfigNotFound string

definition bindE :: "error + 'a \<Rightarrow> ('a \<Rightarrow> error + 'b) \<Rightarrow> error + 'b" where
  "bindE m f = (case m of Inl e \<Rightarrow> Inl e | Inr a \<Rightarrow> f a)"

text \<open>\<open>xs[i]\<close> for a number \<open>i\<close>: \<open>undefined\<close> outside the array.\<close>

definition nth_opt :: "'a list \<Rightarrow> int \<Rightarrow> 'a option" where
  "nth_opt xs i = (if 0 \<le> i \<and> i < int (length xs) then Some (xs ! nat i) else None)"

section \<open>weapon/types.ts\<close>

text \<open>Source: \<^verbatim>\<open>src/engine/src/weapon/types.ts\<close>, lines 1 to 124.\<close>

datatype WeaponType = AR | Shotgun | Sniper | SMG | Pickaxe

record WeaponStat =
  st_damage :: real
  st_rpm :: real
  st_spread :: real
  st_projectileSpeed :: real
  st_pellets :: nat
  st_range :: real
  st_headshotMultiplier :: real
  st_ammoPerShot :: int
  st_magazineSize :: int
  st_reloadTime :: int

record WeaponConfig =
  wc_id :: string
  wc_type :: WeaponType
  wc_stats :: WeaponStat

definition WEAPON_CONFIGS :: "(string \<times> WeaponConfig) list" where
  "WEAPON_CONFIGS =
     [(''ar_standard'',
       \<lparr> wc_id = ''ar_standard'', wc_type = AR,
         wc_stats = \<lparr> st_damage = 25, st_rpm = 600, st_spread = fl (5 / 100),
           st_projectileSpeed = 50, st_pellets = 1, st_range = 100,
           st_headshotMultiplier = 15 / 10, st_ammoPerShot = 1, st_magazineSize = 30,
           st_reloadTime = 60 \<rparr> \<rparr>),
      (''shotgun_pump'',
       \<lparr> wc_id = ''shotgun_pump'', wc_type = Shotgun,
         wc_stats = \<lparr> st_damage = 20, st_rpm = 70, st_spread = fl (15 / 100),
           st_projectileSpeed = 40, st_pellets = 8, st_range = 20,
           st_headshotMultiplier = 125 / 100, st_ammoPerShot = 1, st_magazineSize = 6,
           st_reloadTime = 80 \<rparr> \<rparr>),
      (''sniper_bolt'',
       \<lparr> wc_id = ''sniper_bolt'', wc_type = Sniper,
         wc_stats = \<lparr> st_damage = 100, st_rpm = 40, st_spread = fl (1 / 100),
           st_projectileSpeed = 80, st_pellets = 1, st_range = 200,
           st_headshotMultiplier = 2, st_ammoPerShot = 1, st_magazineSize = 5,
           st_reloadTime = 100 \<rparr> \<rparr>),
      (''smg_compact'',
       \<lparr> wc_id = ''smg_compact'', wc_type = SMG,
         wc_stats = \<lparr> st_damage = 15, st_rpm = 900, st_spread = fl (8 / 100),
           st_projectileSpeed = 45, st_pellets = 1, st_range = 50,
           st_headshotMultiplier = fl (13 / 10), st_ammoPerShot = 1, st_magazineSize = 25,
           st_reloadTime = 50 \<rparr> \<rparr>),
      (''pickaxe_standard'',
       \<lparr> wc_id = ''pickaxe_standard'', wc_type = Pickaxe,
         wc_stats = \<lparr> st_damage = 75, st_rpm = 60, st_spread = fl (2 / 10),
           st_projectileSpeed = 0, st_pellets = 1, st_range = 2,
           st_headshotMultiplier = 1, st_ammoPerShot = 0, st_magazineSize = 0,
           st_reloadTime = 0 \<rparr> \<rparr>)]"

definition getWeaponConfig :: "string \<Rightarrow> error + WeaponConfig" where
  "getWeaponConfig wid =
     (case getProp WEAPON_CONFIGS wid of
        None \<Rightarrow> Inl (WeaponConfigNotFound wid)
      | Some config \<Rightarrow> Inr config)"

section \<open>player/inventory.ts\<close>

text \<open>Source: \<^verbatim>\<open>src/engine/src/physics/aabb.ts\<close>, lines 85 to 210.\<close>

definition getActiveWeapon :: "InventoryState \<Rightarrow> WeaponState option" where
  "getActiveWeapon inventory = nth_opt (weapons inventory) (activeWeaponSlot inventory)"

definition getWeaponConfigForSlot :: "InventoryState \<Rightarrow> int \<Rightarrow> error + WeaponConfig" where
  "getWeaponConfigForSlot inventory slot =
     (case nth_opt (weapons inventory) slot of
        None \<Rightarrow> Inl TypeError
      | Some weaponState \<Rightarrow> getWeaponConfig (weaponId weaponState))"

definition canFire :: "WeaponState \<Rightarrow> WeaponConfig \<Rightarrow> bool" where
  "canFire weaponState weaponConfig =
     (if isReloading weaponState then False
      else if st_ammoPerShot (wc_stats weaponConfig) = 0 then True
      else currentAmmo weaponState \<ge> st_ammoPerShot (wc_stats weaponConfig))"

definition canFireWeapon :: "InventoryState \<Rightarrow> error + bool" where
  "canFireWeapon inventory =
     (case getActiveWeapon inventory of
        None \<Rightarrow> Inl TypeError
      | Some weapon \<Rightarrow>
          bindE (getWeaponConfig (weaponId weapon)) (\<lambda>config.
            Inr (if isReloading weapon then False
                 else if st_ammoPerShot (wc_stats config) = 0 then True
                 else currentAmmo weapon \<ge> st_ammoPerShot (wc_stats config))))"

definition fireWeapon :: "InventoryState \<Rightarrow> error + InventoryState" where
  "fireWeapon inventory =
     (case getActiveWeapon inventory of
        None \<Rightarrow> Inl TypeError
      | Some weapon \<Rightarrow>
          bindE (getWeaponConfig (weaponId weapon)) (\<lambda>config.
          bindE (canFireWeapon inventory) (\<lambda>ok.
            if \<not> ok then Inr inventory
            else Inr (inventory\<lparr> weapons :=
                   (weapons inventory)[nat (activeWeaponSlot inventory) :=
                      weapon\<lparr> currentAmmo :=
                        currentAmmo weapon - st_ammoPerShot (wc_stats config) \<rparr>] \<rparr>))))"

text \<open>\<open>inventory.reserveAmmo[id] || 0\<close>.\<close>

definition reserveOf :: "InventoryState \<Rightarrow> string \<Rightarrow> int" where
  "reserveOf inventory wid = orZero (getProp (reserveAmmo inventory) wid)"

definition updateReload :: "InventoryState \<Rightarrow> error + InventoryState" where
  "updateReload inventory =
     (case getActiveWeapon inventory of
        None \<Rightarrow> Inl TypeError
      | Some weapon \<Rightarrow>
          if \<not> isReloading weapon then Inr inventory
          else
            let newReloadTicks = reloadTicksRemaining weapon - 1
            in if newReloadTicks \<le> 0 then
                 bindE (getWeaponConfig (weaponId weapon)) (\<lambda>config.
                   let reserve = reserveOf inventory (weaponId weapon);
                       ammoNeeded = st_magazineSize (wc_stats config) - currentAmmo weapon;
                       ammoToAdd = min ammoNeeded reserve
                   in Inr (inventory\<lparr>
                        weapons := (weapons inventory)[nat (activeWeaponSlot inventory) :=
                          weapon\<lparr> currentAmmo := currentAmmo weapon + ammoToAdd,
                                   isReloading := False,
                                   reloadTicksRemaining := 0 \<rparr>],
                        reserveAmmo := assign (reserveAmmo inventory) (weaponId weapon)
                                         (reserve - ammoToAdd) \<rparr>))
               else
                 Inr (inventory\<lparr>
                        weapons := (weapons inventory)[nat (activeWeaponSlot inventory) :=
                          weapon\<lparr> reloadTicksRemaining := newReloadTicks \<rparr>] \<rparr>))"

section \<open>weapon/weapon.ts\<close>

text \<open>Source: \<^verbatim>\<open>src/engine/src/weapon/types.ts\<close>, lines 124 to 289.\<close>

record ProjectileData =
  p_id :: string
  p_weaponId :: string
  p_ownerId :: string
  p_position :: "real \<times> real"
  p_direction :: "real \<times> real"
  p_speed :: real
  p_damage :: real
  p_isHitscan :: bool
  p_spread :: real
  p_pellets :: nat
  p_range :: real
  p_headshotMultiplier :: real

record FireResult =
  fr_success :: bool
  fr_projectiles :: "ProjectileData list"
  fr_ammoConsumed :: int

text \<open>\<open>Math.sqrt(..) || 1\<close>, and the square \<open>Math.pow(v, 2)\<close>.\<close>

definition orOne :: "real \<Rightarrow> real" where
  "orOne v = (if v = 0 then 1 else v)"

definition fsquare :: "real \<Rightarrow> real" where
  "fsquare v = fmul v v"

text \<open>
  One projectile: the spread angle is drawn first (\<open>nextFloat\<close>), the aim is rotated by it
  with the host's \<open>Math.cos\<close> and \<open>Math.sin\<close> and normalised, then the id is drawn
  (\<open>nextInt\<close>).
\<close>

definition fireOne ::
  "Host \<Rightarrow> WeaponConfig \<Rightarrow> string \<Rightarrow> real \<times> real \<Rightarrow> real \<times> real \<Rightarrow> bool \<Rightarrow> real \<Rightarrow> PRNG
    \<Rightarrow> ProjectileData \<times> PRNG" where
  "fireOne h weaponConfig ownerId position aimDirection hitscan spreadField prng =
     (let stats = wc_stats weaponConfig;
          baseDirX = fst aimDirection;
          baseDirY = snd aimDirection;
          (f, prng1) = nextFloat prng;
          spreadAngle = fmul (fsub f (1 / 2)) (st_spread stats);
          dirX = fsub (fmul baseDirX (mathCos h spreadAngle))
                      (fmul baseDirY (mathSin h spreadAngle));
          dirY = fadd (fmul baseDirX (mathSin h spreadAngle))
                      (fmul baseDirY (mathCos h spreadAngle));
          mag = orOne (fsqrt (fadd (fmul dirX dirX) (fmul dirY dirY)));
          (n, prng2) = nextInt prng1 0 1000000
      in (\<lparr> p_id = ''proj_'' @ ownerId @ ''_'' @ showInt n,
            p_weaponId = wc_id weaponConfig,
            p_ownerId = ownerId,
            p_position = position,
            p_direction = (fdiv dirX mag, fdiv dirY mag),
            p_speed = st_projectileSpeed stats,
            p_damage = st_damage stats,
            p_isHitscan = hitscan,
            p_spread = spreadField,
            p_pellets = 1,
            p_range = st_range stats,
            p_headshotMultiplier = st_headshotMultiplier stats \<rparr>, prng2))"

fun firePellets ::
  "Host \<Rightarrow> nat \<Rightarrow> WeaponConfig \<Rightarrow> string \<Rightarrow> real \<times> real \<Rightarrow> real \<times> real \<Rightarrow> PRNG
    \<Rightarrow> ProjectileData list \<times> PRNG" where
  "firePellets h 0 weaponConfig ownerId position aimDirection prng = ([], prng)"
| "firePellets h (Suc k) weaponConfig ownerId position aimDirection prng =
     (let (p, prng1) = fireOne h weaponConfig ownerId position aimDirection False 0 prng;
          (ps, prng2) = firePellets h k weaponConfig ownerId position aimDirection prng1
      in (p # ps, prng2))"

definition fire ::
  "Host \<Rightarrow> WeaponState \<Rightarrow> WeaponConfig \<Rightarrow> string \<Rightarrow> real \<times> real \<Rightarrow> real \<times> real \<Rightarrow> PRNG
    \<Rightarrow> FireResult \<times> PRNG" where
  "fire h weaponState weaponConfig ownerId position aimDirection prng =
     (if \<not> canFire weaponState weaponConfig
      then (\<lparr> fr_success = False, fr_projectiles = [], fr_ammoConsumed = 0 \<rparr>, prng)
      else
        let stats = wc_stats weaponConfig;
            (projectiles, prng1) =
              (if wc_type weaponConfig = Shotgun
               then firePellets h (st_pellets stats) weaponConfig ownerId position
                      aimDirection prng
               else (let (p, q) = fireOne h weaponConfig ownerId position aimDirection
                                    (wc_type weaponConfig \<noteq> Pickaxe \<and>
                                     st_projectileSpeed stats = 0)
                                    (st_spread stats) prng
                     in ([p], q)))
        in (\<lparr> fr_success = True, fr_projectiles = projectiles,
              fr_ammoConsumed = st_ammoPerShot stats \<rparr>, prng1))"

section \<open>sim/projectiles.ts\<close>

text \<open>Source: \<^verbatim>\<open>src/unnamed/part_008\<close>, lines 1 to 263.\<close>

record Projectile = ProjectileData +
  p_lifetime :: real
  p_distanceTraveled :: real

record HitResult =
  hr_hit :: bool
  hr_entityId :: "string option"
  hr_damage :: "real option"
  hr_position :: "(real \<times> real) option"
  hr_isHeadshot :: "bool option"
  hr_distance :: "real option"

definition createProjectile :: "ProjectileData \<Rightarrow> Projectile" where
  "createProjectile pd =
     \<lparr> p_id = p_id pd, p_weaponId = p_weaponId pd, p_ownerId = p_ownerId pd,
       p_position = p_position pd, p_direction = p_direction pd, p_speed = p_speed pd,
       p_damage = p_damage pd, p_isHitscan = p_isHitscan pd, p_spread = p_spread pd,
       p_pellets = p_pellets pd, p_range = p_range pd,
       p_headshotMultiplier = p_headshotMultiplier pd,
       p_lifetime = (if p_isHitscan pd then 1 else 120),
       p_distanceTraveled = 0 \<rparr>"

text \<open>\<open>isHeadshot\<close>: the band of height \<open>h / 3\<close> that starts at \<open>headTop = y - h / 2\<close>.\<close>

definition isHeadshot :: "real \<times> real \<Rightarrow> Entity \<Rightarrow> bool" where
  "isHeadshot hitPosition entity =
     (let headHeight = fdiv (e_h entity) 3;
          headTop = fsub (e_y entity) (fdiv (e_h entity) 2);
          headBottom = fadd headTop headHeight
      in snd hitPosition \<ge> headTop \<and> snd hitPosition \<le> headBottom)"

definition calculateDamage :: "Projectile \<Rightarrow> Entity \<Rightarrow> PRNG \<Rightarrow> real \<times> PRNG" where
  "calculateDamage projectile entity prng =
     (let d0 = p_damage projectile;
          d1 = (if p_distanceTraveled projectile > fmul (p_range projectile) (1 / 2)
                then (let falloffFactor =
                            fsub 1 (min 1 (fdiv (fsub (p_distanceTraveled projectile)
                                                      (fmul (p_range projectile) (1 / 2)))
                                                (fmul (p_range projectile) (1 / 2))))
                      in fmul d0 falloffFactor)
                else d0);
          d2 = (if isHeadshot (p_position projectile) entity
                then fmul d1 (p_headshotMultiplier projectile) else d1);
          (f, prng1) = nextFloat prng;
          variation = fadd 1 (fmul (fsub f (1 / 2)) (fl (1 / 10)));
          d3 = fmul d2 variation
      in (max 1 (real_of_int (mathRound d3)), prng1))"

text \<open>
  \<open>raycastVsEntity\<close>. A division by a zero direction component is \<open>Infinity\<close> or \<open>NaN\<close> in
  the source and 0 here; a hit-scan result carries no \<open>damage\<close> property, and the tick
  applies only hits that carry one, so the outcome of a ray cast never reaches the state.
\<close>

definition raycastVsEntity ::
  "real \<times> real \<Rightarrow> real \<times> real \<Rightarrow> Entity \<Rightarrow> real \<Rightarrow> HitResult" where
  "raycastVsEntity origin direction entity maxDistance =
     (let ex = fsub (e_x entity) (fdiv (e_w entity) 2);
          ey = fsub (e_y entity) (fdiv (e_h entity) 2);
          t1 = fdiv (fsub ex (fst origin)) (fst direction);
          t2 = fdiv (fsub (fadd ex (e_w entity)) (fst origin)) (fst direction);
          t3 = fdiv (fsub ey (snd origin)) (snd direction);
          t4 = fdiv (fsub (fadd ey (e_h entity)) (snd origin)) (snd direction);
          tmin = max (min t1 t2) (min t3 t4);
          tmax = min (max t1 t2) (max t3 t4)
      in if tmax < 0 \<or> tmin > tmax \<or> tmin > maxDistance
         then \<lparr> hr_hit = False, hr_entityId = None, hr_damage = None, hr_position = None,
                hr_isHeadshot = None, hr_distance = None \<rparr>
         else
           let hitPosition = (fadd (fst origin) (fmul (fst direction) tmin),
                              fadd (snd origin) (fmul (snd direction) tmin))
           in \<lparr> hr_hit = True, hr_entityId = Some (e_id entity), hr_damage = None,
                hr_position = Some hitPosition,
                hr_isHeadshot = Some (isHeadshot hitPosition entity),
                hr_distance = Some tmin \<rparr>)"

text \<open>The loop of \<open>detectHitscanHit\<close>, carrying the closest hit so far.\<close>

fun closestHit :: "Projectile \<Rightarrow> HitResult option \<Rightarrow> Entity list \<Rightarrow> HitResult option" where
  "closestHit projectile best [] = best"
| "closestHit projectile best (entity # rest) =
     (if e_id entity = p_ownerId projectile then closestHit projectile best rest
      else
        let hitResult = raycastVsEntity (p_position projectile) (p_direction projectile)
                          entity (p_range projectile);
            closer = (case best of None \<Rightarrow> True
                      | Some b \<Rightarrow> orZero (hr_distance hitResult) < orZero (hr_distance b))
        in if hr_hit hitResult \<and> closer
           then closestHit projectile (Some hitResult) rest
           else closestHit projectile best rest)"

definition detectHitscanHit :: "Projectile \<Rightarrow> Entity list \<Rightarrow> HitResult option" where
  "detectHitscanHit projectile es = closestHit projectile None es"

fun detectProjectileHit ::
  "Projectile \<Rightarrow> Entity list \<Rightarrow> PRNG \<Rightarrow> HitResult option \<times> PRNG" where
  "detectProjectileHit projectile [] prng = (None, prng)"
| "detectProjectileHit projectile (entity # rest) prng =
     (if e_id entity = p_ownerId projectile then detectProjectileHit projectile rest prng
      else if intersects
                \<lparr> a_x = fsub (fst (p_position projectile))
                               (fmul (real (p_pellets projectile)) (fl (1 / 10))),
                  a_y = fsub (snd (p_position projectile))
                               (fmul (real (p_pellets projectile)) (fl (1 / 10))),
                  a_w = fmul (real (p_pellets projectile)) (fl (2 / 10)),
                  a_h = fmul (real (p_pellets projectile)) (fl (2 / 10)) \<rparr>
                \<lparr> a_x = fsub (e_x entity) (fdiv (e_w entity) 2),
                  a_y = fsub (e_y entity) (fdiv (e_h entity) 2),
                  a_w = e_w entity, a_h = e_h entity \<rparr>
           then (let (d, prng1) = calculateDamage projectile entity prng
                 in (Some \<lparr> hr_hit = True, hr_entityId = Some (e_id entity),
                            hr_damage = Some d,
                            hr_position = Some (p_position projectile),
                            hr_isHeadshot = Some (isHeadshot (p_position projectile) entity),
                            hr_distance = None \<rparr>, prng1))
           else detectProjectileHit projectile rest prng)"

definition simulateHitscan :: "Projectile \<Rightarrow> Entity list \<Rightarrow> Projectile \<times> HitResult option" where
  "simulateHitscan projectile es =
     (projectile\<lparr> p_lifetime := 0 \<rparr>, detectHitscanHit projectile es)"

definition simulateProjectileMovement ::
  "Projectile \<Rightarrow> Entity list \<Rightarrow> real \<Rightarrow> PRNG \<Rightarrow> (Projectile \<times> HitResult option) \<times> PRNG" where
  "simulateProjectileMovement projectile es dt prng =
     (let newX = fadd (fst (p_position projectile))
                      (fmul (fmul (fst (p_direction projectile)) (p_speed projectile)) dt);
          newY = fadd (snd (p_position projectile))
                      (fmul (fmul (snd (p_direction projectile)) (p_speed projectile)) dt);
          distanceMoved = fsqrt (fadd (fsquare (fsub newX (fst (p_position projectile))))
                                      (fsquare (fsub newY (snd (p_position projectile)))));
          updatedProjectile = projectile\<lparr>
              p_position := (newX, newY),
              p_lifetime := fsub (p_lifetime projectile) 1,
              p_distanceTraveled := fadd (p_distanceTraveled projectile) distanceMoved \<rparr>;
          (hitResult, prng1) = detectProjectileHit updatedProjectile es prng
      in ((updatedProjectile, hitResult), prng1))"

definition simulateProjectile ::
  "Projectile \<Rightarrow> Entity list \<Rightarrow> real \<Rightarrow> PRNG \<Rightarrow> (Projectile \<times> HitResult option) \<times> PRNG" where
  "simulateProjectile projectile es dt prng =
     (if p_isHitscan projectile then (simulateHitscan projectile es, prng)
      else simulateProjectileMovement projectile es dt prng)"

record ProjectileSimulationResult =
  sr_projectiles :: "Projectile list"
  sr_hits :: "HitResult list"

fun simulateProjectiles ::
  "Projectile list \<Rightarrow> Entity list \<Rightarrow> real \<Rightarrow> PRNG \<Rightarrow> ProjectileSimulationResult \<times> PRNG" where
  "simulateProjectiles [] es dt prng = (\<lparr> sr_projectiles = [], sr_hits = [] \<rparr>, prng)"
| "simulateProjectiles (projectile # rest) es dt prng =
     (if p_lifetime projectile \<le> 0 \<or> p_distanceTraveled projectile \<ge> p_range projectile
      then simulateProjectiles rest es dt prng
      else
        let ((proj1, hitResult), prng1) = simulateProjectile projectile es dt prng;
            (res, prng2) = simulateProjectiles rest es dt prng1
        in (\<lparr> sr_projectiles =
                (if p_lifetime proj1 > 0 \<and> p_distanceTraveled proj1 < p_range proj1
                 then proj1 # sr_projectiles res else sr_projectiles res),
              sr_hits = (case hitResult of None \<Rightarrow> sr_hits res
                         | Some h \<Rightarrow> h # sr_hits res) \<rparr>, prng2))"

section \<open>sim/tick.ts: the World\<close>

text \<open>
  Source: \<^verbatim>\<open>src/engine/src/sim/prng.ts\<close>, lines 85 to 322 (the tick module follows the
  generator in that file).
\<close>

record World =
  w_state :: State
  w_tickRate :: real
  w_dt :: real
  w_prng :: PRNG
  w_activeProjectiles :: "Projectile list"

text \<open>
  \<open>new World(state?, tickRate, seed?)\<close>: the generator is created from the seed; a state
  without \<open>rng\<close> receives the generator's state, otherwise the generator is set to the
  state's \<open>rng\<close>.
\<close>

definition World_new :: "State option \<Rightarrow> real \<Rightarrow> int option \<Rightarrow> World" where
  "World_new st tickRate seed =
     (let state0 = (case st of None \<Rightarrow> createState 0 seed | Some s \<Rightarrow> s);
          prng0 = createPRNG seed
      in case rng state0 of
           None \<Rightarrow>
             \<lparr> w_state = state0\<lparr> rng := Some (getState prng0) \<rparr>, w_tickRate = tickRate,
               w_dt = fdiv 1 tickRate, w_prng = prng0, w_activeProjectiles = [] \<rparr>
         | Some r \<Rightarrow>
             \<lparr> w_state = state0, w_tickRate = tickRate, w_dt = fdiv 1 tickRate,
               w_prng = setState prng0 r, w_activeProjectiles = [] \<rparr>)"

text \<open>\<open>createWorld(seed?, opts?)\<close> with \<open>opts?.tickRate ?? 20\<close>.\<close>

definition createWorld :: "int option \<Rightarrow> real option \<Rightarrow> World" where
  "createWorld seed tickRateOpt =
     (let tickRate = (case tickRateOpt of None \<Rightarrow> 20 | Some r \<Rightarrow> r)
      in World_new (Some (createState 0 seed)) tickRate seed)"


definition World_serialize :: "World \<Rightarrow> Snapshot" where
  "World_serialize w = serializeSnapshot (w_state w)"

text \<open>\<open>mergeInputs\<close>: for every map in turn, \<open>out[k] = map[k]\<close> for \<open>k\<close> of \<open>Object.keys(map)\<close>.\<close>

definition mergeInputs :: "InputMap list \<Rightarrow> InputMap" where
  "mergeInputs inputs =
     foldl (\<lambda>out m. foldl (\<lambda>acc kv. assign acc (fst kv) (snd kv)) out (objectEntries m))
       [] inputs"

subsection \<open>Weapon combat\<close>

fun mapE :: "('a \<Rightarrow> error + 'b) \<Rightarrow> 'a list \<Rightarrow> error + 'b list" where
  "mapE f [] = Inr []"
| "mapE f (x # xs) = bindE (f x) (\<lambda>y. bindE (mapE f xs) (\<lambda>ys. Inr (y # ys)))"

definition reloadEntity :: "Entity \<Rightarrow> error + Entity" where
  "reloadEntity entity =
     (if e_type entity = Player then
        (case e_inventory entity of
           None \<Rightarrow> Inr entity
         | Some inventory \<Rightarrow>
             bindE (updateReload inventory) (\<lambda>inventory'. Inr (entity\<lparr> e_inventory := Some inventory' \<rparr>)))
      else Inr entity)"

text \<open>
  \<open>handlePlayerShooting\<close> returns the shooter, the projectiles to append to
  \<open>activeProjectiles\<close> and the generator.
\<close>

definition handlePlayerShooting ::
  "Host \<Rightarrow> Entity \<Rightarrow> Input \<Rightarrow> PRNG \<Rightarrow> error + (Entity \<times> Projectile list \<times> PRNG)" where
  "handlePlayerShooting h shooter input prng =
     (case e_inventory shooter of
        None \<Rightarrow> Inr (shooter, [], prng)
      | Some inventory \<Rightarrow>
          bindE (getWeaponConfigForSlot inventory (activeWeaponSlot inventory)) (\<lambda>weaponConfig.
          case getActiveWeapon inventory of
            None \<Rightarrow> Inl TypeError
          | Some weaponState \<Rightarrow>
              bindE (canFireWeapon inventory) (\<lambda>ok.
                if \<not> ok then Inr (shooter, [], prng)
                else
                  let aim0 = (if dx input \<noteq> 0 \<or> dy input \<noteq> 0 then (dx input, dy input)
                              else (0, - 1));
                      mag = orOne (fsqrt (fadd (fmul (fst aim0) (fst aim0))
                                               (fmul (snd aim0) (snd aim0))));
                      aimDir = (fdiv (fst aim0) mag, fdiv (snd aim0) mag);
                      (fireResult, prng1) =
                         fire h weaponState weaponConfig (e_id shooter)
                           (e_x shooter, e_y shooter) aimDir prng
                  in if fr_success fireResult then
                       bindE (fireWeapon inventory) (\<lambda>inventory'.
                         Inr (shooter\<lparr> e_inventory := Some inventory' \<rparr>,
                              map createProjectile (fr_projectiles fireResult), prng1))
                     else Inr (shooter, [], prng1))))"

fun findIndex :: "('a \<Rightarrow> bool) \<Rightarrow> 'a list \<Rightarrow> nat option" where
  "findIndex P [] = None"
| "findIndex P (x # xs) =
     (if P x then Some 0 else map_option Suc (findIndex P xs))"

text \<open>The loop over \<open>Object.keys(inputs)\<close>, given the entries in enumeration order.\<close>

fun shootAll ::
  "Host \<Rightarrow> InputMap \<Rightarrow> Entity list \<Rightarrow> Projectile list \<Rightarrow> PRNG
    \<Rightarrow> error + (Entity list \<times> Projectile list \<times> PRNG)" where
  "shootAll h [] es projs prng = Inr (es, projs, prng)"
| "shootAll h ((cid, inp) # rest) es projs prng =
     (if shoot inp then
        (case findIndex (\<lambda>e. e_id e = cid \<and> e_type e = Player) es of
           None \<Rightarrow> shootAll h rest es projs prng
         | Some i \<Rightarrow>
             if e_inventory (es ! i) = None then shootAll h rest es projs prng
             else
               bindE (handlePlayerShooting h (es ! i) inp prng) (\<lambda>(shooter, new, prng1).
                 shootAll h rest (es[i := shooter]) (projs @ new) prng1))
      else shootAll h rest es projs prng)"

definition handleWeaponCombat ::
  "Host \<Rightarrow> State \<Rightarrow> InputMap \<Rightarrow> Projectile list \<Rightarrow> PRNG
    \<Rightarrow> error + (State \<times> Projectile list \<times> PRNG)" where
  "handleWeaponCombat h s inputs projs prng =
     bindE (mapE reloadEntity (entities s)) (\<lambda>es1.
     bindE (shootAll h (objectEntries inputs) es1 projs prng) (\<lambda>(es2, projs2, prng2).
       Inr (s\<lparr> entities := es2 \<rparr>, projs2, prng2)))"

subsection \<open>Projectiles\<close>

text \<open>\<open>if (hit.entityId && hit.damage)\<close>: a non-empty id and a non-zero damage.\<close>

definition applyHit :: "Entity list \<Rightarrow> HitResult \<Rightarrow> Entity list" where
  "applyHit es hit =
     (case (hr_entityId hit, hr_damage hit) of
        (Some eid, Some d) \<Rightarrow>
          if eid \<noteq> [] \<and> d \<noteq> 0
          then updateFirst (\<lambda>e. e_id e = eid)
                 (\<lambda>target. target\<lparr> e_hp := max 0 (fsub (e_hp target) d) \<rparr>) es
          else es
      | _ \<Rightarrow> es)"

definition handleProjectiles ::
  "State \<Rightarrow> Projectile list \<Rightarrow> real \<Rightarrow> PRNG \<Rightarrow> State \<times> Projectile list \<times> PRNG" where
  "handleProjectiles s projs dt prng =
     (let (simulationResult, prng1) = simulateProjectiles projs (entities s) dt prng;
          es1 = foldl applyHit (entities s) (sr_hits simulationResult)
      in (s\<lparr> entities := es1 \<rparr>,
          filter (\<lambda>p. p_lifetime p > 0 \<and> p_distanceTraveled p < p_range p)
            (sr_projectiles simulationResult),
          prng1))"

subsection \<open>Pairwise collision resolution of the players\<close>

text \<open>
  \<open>players\<close> is an array of references into \<open>next.entities\<close>: a player is its index in the
  entity list, and the two nested loops run over the pairs of indices in order.
\<close>

definition playerIndices :: "Entity list \<Rightarrow> nat list" where
  "playerIndices es = filter (\<lambda>i. e_type (es ! i) = Player) [0 ..< length es]"

definition boxOf :: "Entity \<Rightarrow> AABB" where
  "boxOf p = \<lparr> a_x = e_x p, a_y = e_y p, a_w = e_w p, a_h = e_h p \<rparr>"

definition collidePair :: "Entity list \<Rightarrow> nat \<Rightarrow> nat \<Rightarrow> Entity list" where
  "collidePair es i j =
     (let p1 = es ! i; p2 = es ! j; a = boxOf p1; b = boxOf p2
      in if intersects a b
         then (let mtv = resolve a b
               in es[i := p1\<lparr> e_x := fadd (e_x p1) (fdiv (fst mtv) 2),
                              e_y := fadd (e_y p1) (fdiv (snd mtv) 2) \<rparr>,
                     j := p2\<lparr> e_x := fsub (e_x p2) (fdiv (fst mtv) 2),
                              e_y := fsub (e_y p2) (fdiv (snd mtv) 2) \<rparr>])
         else es)"

fun collideFrom :: "Entity list \<Rightarrow> nat \<Rightarrow> nat list \<Rightarrow> Entity list" where
  "collideFrom es i [] = es"
| "collideFrom es i (j # js) = collideFrom (collidePair es i j) i js"

fun resolvePlayers :: "Entity list \<Rightarrow> nat list \<Rightarrow> Entity list" where
  "resolvePlayers es [] = es"
| "resolvePlayers es (i # rest) = resolvePlayers (collideFrom es i rest) rest"

subsection \<open>One tick\<close>

text \<open>
  \<open>tick(inputs)\<close>. The result is the pair of the State object that was current when the call
  began, as the call leaves it, and the World after the call. The statement
  \<open>this.state.rng = this.prng.getState()\<close> runs before \<open>this.state = next\<close>, so it writes to the
  former object; \<open>next\<close> is a clone that was taken at the start of the call. An exception
  leaves the call without a result.
\<close>

definition World_tick_full :: "Host \<Rightarrow> World \<Rightarrow> InputMap list \<Rightarrow> error + (State \<times> World)" where
  "World_tick_full h w inputs =
     (let merged = mergeInputs inputs;
          next0 = applyInputsShallow (w_state w) merged (w_dt w);
          next1 = processMovement h next0 merged (w_dt w) (tick next0)
      in bindE (handleWeaponCombat h next1 merged (w_activeProjectiles w) (w_prng w))
           (\<lambda>(next2, projs2, prng2).
              let (next3, projs3, prng3) = handleProjectiles next2 projs2 (w_dt w) prng2;
                  next4 = next3\<lparr> entities :=
                            resolvePlayers (entities next3) (playerIndices (entities next3)) \<rparr>;
                  previous = (w_state w)\<lparr> rng := Some (getState prng3) \<rparr>;
                  prng4 = snd (prng_next prng3);
                  next5 = next4\<lparr> lastChecksum := Some (computeStateChecksum h next4) \<rparr>
              in Inr (previous,
                      w\<lparr> w_state := next5, w_prng := prng4, w_activeProjectiles := projs3 \<rparr>)))"

definition World_tick :: "Host \<Rightarrow> World \<Rightarrow> InputMap list \<Rightarrow> error + World" where
  "World_tick h w inputs = bindE (World_tick_full h w inputs) (\<lambda>r. Inr (snd r))"

text \<open>A sequence of ticks, one array of input maps per tick.\<close>

fun World_ticks :: "Host \<Rightarrow> World \<Rightarrow> InputMap list list \<Rightarrow> error + World" where
  "World_ticks h w [] = Inr w"
| "World_ticks h w (inputs # rest) =
     bindE (World_tick h w inputs) (\<lambda>w'. World_ticks h w' rest)"

section \<open>sim/spawn.ts, match/match.ts and match/modes/arena.ts: spawning\<close>

text \<open>
  Sources: \<^verbatim>\<open>src/unnamed/part_007\<close>, lines 24 to 140 (\<open>DefaultSpawnSystem\<close>);
  \<^verbatim>\<open>src/engine/src/match/match.ts\<close>, lines 107 to 148 and 249 to 265 (\<open>MatchRunner\<close>);
  \<^verbatim>\<open>src/unnamed/part_006\<close> (\<open>ArenaMode\<close>);
  \<^verbatim>\<open>src/engine/src/match/match_types.ts\<close>, lines 11 to 18 (\<open>SpawnPoint\<close>).
\<close>

datatype SpawnKind = TeamSpawn | RandomSpawn | SafeSpawn

record SpawnPoint =
  sp_id :: string
  sp_x :: real
  sp_y :: real
  sp_type :: SpawnKind
  sp_team :: "int option"
  sp_radius :: "real option"

text \<open>\<open>canSpawnAt(x, y, radius)\<close>: no player or item closer than \<open>radius\<close>.\<close>

definition canSpawnAt :: "Entity list \<Rightarrow> real \<Rightarrow> real \<Rightarrow> real \<Rightarrow> bool" where
  "canSpawnAt es x y radius =
     list_all (\<lambda>entity.
                 \<not> ((e_type entity = Player \<or> e_type entity = Item) \<and>
                    fsqrt (fadd (fsquare (fsub (e_x entity) x))
                                (fsquare (fsub (e_y entity) y))) < radius)) es"

text \<open>
  \<open>DefaultSpawnSystem.spawnPlayer\<close> on the entities of the world it holds. The registry
  \<open>activeSpawns\<close>, which records the wall-clock time of the spawn and is never read, is left
  out. The result is the \<open>success\<close> flag and the entity list.
\<close>

definition spawnPlayer :: "Entity list \<Rightarrow> string \<Rightarrow> SpawnPoint \<Rightarrow> bool \<times> Entity list" where
  "spawnPlayer es playerId spawnPoint =
     (if \<not> canSpawnAt es (sp_x spawnPoint) (sp_y spawnPoint) 1 then (False, es)
      else
        let playerEntity =
              (baseEntity playerId Player (sp_x spawnPoint) (sp_y spawnPoint) 1 (fl (18 / 10))
                 0 0 100)
                \<lparr> e_team := (if sp_type spawnPoint = TeamSpawn then sp_team spawnPoint
                              else None) \<rparr>
        in (True, es @ [playerEntity]))"

text \<open>\<open>ArenaMode\<close>: its two spawn points, \<open>initialize\<close>, \<open>onRoundStart\<close> and \<open>getSpawnPoint\<close>.\<close>

definition arena_generateSpawnPoints :: "SpawnPoint list" where
  "arena_generateSpawnPoints =
     [\<lparr> sp_id = ''team_0_spawn'', sp_x = 0, sp_y = 0, sp_type = TeamSpawn, sp_team = Some 0,
        sp_radius = Some 2 \<rparr>,
      \<lparr> sp_id = ''team_1_spawn'', sp_x = 100, sp_y = 100, sp_type = TeamSpawn,
        sp_team = Some 1, sp_radius = Some 2 \<rparr>]"

definition arena_initialize :: "string list \<Rightarrow> Entity list \<Rightarrow> Entity list" where
  "arena_initialize players es =
     (let spawnPoints = arena_generateSpawnPoints
      in if length players \<ge> 2
         then (let es1 = snd (spawnPlayer es (players ! 0) (spawnPoints ! 0))
               in snd (spawnPlayer es1 (players ! 1) (spawnPoints ! 1)))
         else es)"

text \<open>The loop of \<open>onRoundStart\<close> over the player indices from \<open>i\<close> on.\<close>

fun arena_onRoundStart_from ::
  "nat \<Rightarrow> string list \<Rightarrow> SpawnPoint list \<Rightarrow> Entity list \<Rightarrow> Entity list" where
  "arena_onRoundStart_from i [] spawnPoints es = es"
| "arena_onRoundStart_from i (p # ps) spawnPoints es =
     arena_onRoundStart_from (Suc i) ps spawnPoints
       (snd (spawnPlayer es p (spawnPoints ! (i mod length spawnPoints))))"

definition arena_onRoundStart :: "string list \<Rightarrow> SpawnPoint list \<Rightarrow> Entity list \<Rightarrow> Entity list" where
  "arena_onRoundStart players spawnPoints es =
     arena_onRoundStart_from 0 players spawnPoints es"

text \<open>\<open>players.indexOf(playerId)\<close> is \<open>findIndex\<close>; \<open>-1\<close> is \<open>None\<close>.\<close>

definition getSpawnPoint :: "string list \<Rightarrow> SpawnPoint list \<Rightarrow> string \<Rightarrow> SpawnPoint option" where
  "getSpawnPoint players spawnPoints playerId =
     (case findIndex (\<lambda>p. p = playerId) players of
        None \<Rightarrow> None
      | Some playerIndex \<Rightarrow>
          if playerIndex < length spawnPoints then Some (spawnPoints ! playerIndex) else None)"

text \<open>
  \<open>MatchRunner.spawnPlayers\<close>: for every configured player that has a spawn point, a new
  player entity is pushed. The first argument is \<open>config.players\<close>, the third the players
  still to be visited.
\<close>

fun spawnPlayers ::
  "string list \<Rightarrow> SpawnPoint list \<Rightarrow> string list \<Rightarrow> Entity list \<Rightarrow> Entity list" where
  "spawnPlayers players spawnPoints [] es = es"
| "spawnPlayers players spawnPoints (playerId # rest) es =
     (case getSpawnPoint players spawnPoints playerId of
        None \<Rightarrow> spawnPlayers players spawnPoints rest es
      | Some spawnPoint \<Rightarrow>
          spawnPlayers players spawnPoints rest
            (es @ [createPlayer playerId (sp_x spawnPoint) (sp_y spawnPoint)]))"

text \<open>
  The start of a round in \<open>runMatchLoop\<close>: the mode's \<open>onRoundStart\<close>, then \<open>spawnPlayers\<close>.
  \<open>start\<close> runs the mode's \<open>initialize\<close> before the first round.
\<close>

definition arena_roundStart :: "string list \<Rightarrow> Entity list \<Rightarrow> Entity list" where
  "arena_roundStart players es =
     spawnPlayers players arena_generateSpawnPoints players
       (arena_onRoundStart players arena_generateSpawnPoints es)"

definition arena_matchStart :: "string list \<Rightarrow> World \<Rightarrow> World" where
  "arena_matchStart players w =
     w\<lparr> w_state := (w_state w)\<lparr> entities :=
          arena_roundStart players (arena_initialize players (entities (w_state w))) \<rparr> \<rparr>"

section \<open>Auxiliary functions for the checksum proofs\<close>

text \<open>
  The hash step on unsigned integers, reduced modulo \<open>2^32\<close> after every character (the
  shifts add up to a multiplication by the FNV prime 16777619).
\<close>

definition fnvStepInt :: "int \<Rightarrow> char \<Rightarrow> int" where
  "fnvStepInt n c = ((n XOR of_char c) * 16777619) mod 4294967296"

section \<open>Runs of a World\<close>

text \<open>
  What a run is compared on after a tick: \<open>state.lastChecksum\<close>, \<open>state.rng\<close> and
  \<open>serialize()\<close>. \<open>World_trace\<close> ticks a World through a sequence of input arrays and lists
  the observation after every tick; an exception ends the run.
\<close>

definition observe :: "World \<Rightarrow> string option \<times> int option \<times> Snapshot" where
  "observe w = (lastChecksum (w_state w), rng (w_state w), World_serialize w)"

fun World_trace ::
  "Host \<Rightarrow> World \<Rightarrow> InputMap list list
    \<Rightarrow> error + (string option \<times> int option \<times> Snapshot) list" where
  "World_trace h w [] = Inr []"
| "World_trace h w (inputs # rest) =
     bindE (World_tick h w inputs) (\<lambda>w'.
       bindE (World_trace h w' rest) (\<lambda>os. Inr (observe w' # os)))"

section \<open>Two hosts\<close>

text \<open>
  Two comparison functions that a host may provide as \<open>localeCompare\<close>. The first compares
  code units, as a host without collation data does. The second drops the control
  characters below \<open>U+0009\<close> and from \<open>U+000E\<close> to \<open>U+001F\<close> before it compares, as the
  collation of the Unicode collation algorithm does, for which these characters are
  ignorable: it returns 0 for the string \<open>a\<close> and the string \<open>a\<close> followed by \<open>U+0001\<close>.
\<close>

definition codeUnitCompare :: "string \<Rightarrow> string \<Rightarrow> int" where
  "codeUnitCompare a b = (if a < b then - 1 else if a = b then 0 else 1)"

definition ignorable :: "char \<Rightarrow> bool" where
  "ignorable c = ((of_char c :: nat) < 9 \<or> (14 \<le> (of_char c :: nat) \<and> (of_char c :: nat) < 32))"

definition collationCompare :: "string \<Rightarrow> string \<Rightarrow> int" where
  "collationCompare a b =
     codeUnitCompare (filter (\<lambda>c. \<not> ignorable c) a) (filter (\<lambda>c. \<not> ignorable c) b)"

text \<open>The sine and cosine of both hosts are the correctly rounded ones.\<close>

definition plainHost :: Host where
  "plainHost =
     \<lparr> localeCompare = codeUnitCompare, mathSin = (\<lambda>v. fl (sin v)),
       mathCos = (\<lambda>v. fl (cos v)) \<rparr>"

definition collatingHost :: Host where
  "collatingHost =
     \<lparr> localeCompare = collationCompare, mathSin = (\<lambda>v. fl (sin v)),
       mathCos = (\<lambda>v. fl (cos v)) \<rparr>"

section \<open>Facts about the rounding\<close>

lemma fl_0: "fl 0 = 0"
  by (simp add: fl_def)

text \<open>
  The rules that evaluate a rounding: \<open>fl\<close> is unfolded at a numeral only, so that it stays
  folded in a term with variables.
\<close>

lemmas fl_numerals = fl_0 fl_def [of 1] fl_def [of "- 1"] fl_def [of "numeral k"]
  fl_def [of "- numeral k"] fl_def [of "numeral k / numeral m"]
  fl_def [of "- (numeral k / numeral m)"] fl_def [of "1 / numeral m"]
  fl_def [of "- (1 / numeral m)"] for k m

lemmas fl_eval = fl_numerals fadd_def fsub_def fmul_def fdiv_def fsqrt_def fsquare_def
  exponentOf_def ulpAt_def roundHalfEven_def expUp.simps expDown.simps

lemma roundHalfEven_ge_floor: "\<lfloor>y\<rfloor> \<le> roundHalfEven y"
  by (simp add: roundHalfEven_def Let_def)

lemma roundHalfEven_le:
  assumes "y \<le> real_of_int M"
  shows "roundHalfEven y \<le> M"
proof -
  have f: "\<lfloor>y\<rfloor> \<le> M" using assms by (simp add: floor_le_iff)
  show ?thesis
  proof (cases "y - real_of_int \<lfloor>y\<rfloor> < 1 / 2")
    case True
    then show ?thesis using f by (simp add: roundHalfEven_def Let_def)
  next
    case False
    then have "real_of_int \<lfloor>y\<rfloor> < y" by linarith
    with assms have "real_of_int \<lfloor>y\<rfloor> < real_of_int M" by linarith
    then have "\<lfloor>y\<rfloor> + 1 \<le> M" by linarith
    moreover have "roundHalfEven y \<le> \<lfloor>y\<rfloor> + 1"
      by (simp add: roundHalfEven_def Let_def)
    ultimately show ?thesis by linarith
  qed
qed

lemma expDown_le: "expDown k a e \<le> e"
proof (induction k a e rule: expDown.induct)
  case (1 fuel a e)
  show ?case
  proof (cases "fuel = 0 \<or> 1 \<le> a")
    case True
    then show ?thesis by (simp add: expDown.simps)
  next
    case False
    with 1 have "expDown (fuel - 1) (a * 2) (e - 1) \<le> e - 1" by simp
    with False show ?thesis by (simp add: expDown.simps [of fuel a e])
  qed
qed

lemma expUp_pow:
  "1 \<le> a \<Longrightarrow> \<exists>n. expUp k a e = e + int n \<and> 2 ^ n \<le> a"
proof (induction k a e rule: expUp.induct)
  case (1 fuel a e)
  show ?case
  proof (cases "fuel = 0 \<or> a < 2")
    case True
    then have "expUp fuel a e = e + int 0" by (simp add: expUp.simps)
    moreover have "(2::real) ^ 0 \<le> a" using 1(2) by simp
    ultimately show ?thesis by blast
  next
    case False
    then have "1 \<le> a / 2" by simp
    with 1(1) False obtain n where
      n: "expUp (fuel - 1) (a / 2) (e + 1) = e + 1 + int n" "2 ^ n \<le> a / 2"
      by blast
    from False n(1) have "expUp fuel a e = e + int (Suc n)"
      by (simp add: expUp.simps [of fuel a e])
    moreover from n(2) have "2 ^ Suc n \<le> a" by simp
    ultimately show ?thesis by blast
  qed
qed

text \<open>A number in the unit interval is rounded into the unit interval.\<close>

lemma fl_unit_interval:
  assumes "0 \<le> x" and "x \<le> 1"
  shows "0 \<le> fl x \<and> fl x \<le> 1"
proof (cases "x = 0 \<or> x = 1")
  case True
  then show ?thesis by (auto simp add: fl_eval)
next
  case False
  with assms have x: "0 < x" "x < 1" by simp_all
  define r where "r = expDown 1022 x 0"
  define m where "m = nat (52 - r)"
  have r: "r \<le> 0" unfolding r_def by (rule expDown_le)
  have ax: "\<bar>x\<bar> = x" using x by simp
  have e: "exponentOf x = r" using x by (simp add: exponentOf_def r_def)
  have u: "ulpAt r = 1 / 2 ^ m" using r by (simp add: ulpAt_def m_def)
  have "fl x = real_of_int (roundHalfEven (x / ulpAt (exponentOf \<bar>x\<bar>)))
                 * ulpAt (exponentOf \<bar>x\<bar>)"
    using x by (simp add: fl_def Let_def)
  then have f: "fl x = real_of_int (roundHalfEven (x * 2 ^ m)) / 2 ^ m"
    by (simp add: ax e u)
  have "x * 2 ^ m \<le> real_of_int (2 ^ m)" using x by simp
  then have up: "roundHalfEven (x * 2 ^ m) \<le> 2 ^ m" by (rule roundHalfEven_le)
  have "0 \<le> x * 2 ^ m" using x by simp
  then have "0 \<le> \<lfloor>x * 2 ^ m\<rfloor>" by simp
  then have lo: "0 \<le> roundHalfEven (x * 2 ^ m)"
    using roundHalfEven_ge_floor [of "x * 2 ^ m"] by linarith
  from up have "real_of_int (roundHalfEven (x * 2 ^ m)) \<le> 2 ^ m"
    by (metis of_int_le_iff of_int_numeral of_int_power)
  with lo show ?thesis unfolding f by (simp add: divide_le_eq_1)
qed

text \<open>A number that is at least 1 is rounded to a number that is at least 1.\<close>

lemma fl_ge_one:
  assumes "1 \<le> x"
  shows "1 \<le> fl x"
proof -
  from expUp_pow [OF assms, of 1023 0] obtain n where
    n: "expUp 1023 x 0 = int n" "2 ^ n \<le> x" by auto
  have e: "exponentOf \<bar>x\<bar> = int n" using assms n(1) by (simp add: exponentOf_def)
  define u where "u = ulpAt (int n)"
  have u0: "0 < u" unfolding u_def ulpAt_def by simp
  have u2: "(2::real) ^ n = 2 ^ 52 * u"
  proof (cases "52 \<le> n")
    case True
    then have "n = 52 + (n - 52)" by simp
    then have "(2::real) ^ n = 2 ^ 52 * 2 ^ (n - 52)" by (metis power_add)
    moreover have "u = 2 ^ (n - 52)"
      using True by (simp add: u_def ulpAt_def nat_diff_distrib')
    ultimately show ?thesis by (simp only:)
  next
    case False
    define q where "q = (2::real) ^ (52 - n)"
    have q: "0 < q" by (simp add: q_def)
    from False have "52 = n + (52 - n)" by simp
    then have a: "(2::real) ^ 52 = 2 ^ n * q" unfolding q_def by (metis power_add)
    have b: "u = 1 / q"
      using False by (simp add: u_def ulpAt_def nat_diff_distrib' q_def)
    have "(2::real) ^ 52 * u = 2 ^ n * q * (1 / q)" by (simp only: a b)
    also have "\<dots> = 2 ^ n" using q by simp
    finally show ?thesis by (rule sym)
  qed
  have ax: "\<bar>x\<bar> = x" using assms by simp
  have "fl x = real_of_int (roundHalfEven (x / ulpAt (exponentOf \<bar>x\<bar>)))
                 * ulpAt (exponentOf \<bar>x\<bar>)"
    using assms by (simp add: fl_def Let_def)
  then have f: "fl x = real_of_int (roundHalfEven (x / u)) * u"
    by (simp only: e u_def)
  have "2 ^ 52 \<le> x / u"
    using n(2) u0 by (simp only: u2 le_divide_eq) simp
  then have "real_of_int (2 ^ 52) \<le> x / u" by simp
  then have "2 ^ 52 \<le> \<lfloor>x / u\<rfloor>" by (simp only: le_floor_iff)
  then have "2 ^ 52 \<le> roundHalfEven (x / u)"
    using roundHalfEven_ge_floor [of "x / u"] by linarith
  then have "real_of_int (2 ^ 52) \<le> real_of_int (roundHalfEven (x / u))"
    by (simp only: of_int_le_iff)
  then have "2 ^ 52 * u \<le> real_of_int (roundHalfEven (x / u)) * u"
    using u0 by simp
  then have "2 ^ n \<le> fl x" by (simp only: f u2)
  moreover have "(1::real) \<le> 2 ^ n" by simp
  ultimately show ?thesis by linarith
qed

lemma fl_lt_one_iff: "1 \<le> x \<Longrightarrow> (fl x < 1) = False"
  using fl_ge_one [of x] by simp

section \<open>Properties of the generator\<close>

lemma uint_bounds32: "0 \<le> uint (w :: 32 word) \<and> uint w \<le> 0xffffffff"
proof -
  have "uint w < 2 ^ 32" using uint_bounded [of w] by simp
  then show ?thesis by simp
qed

text \<open>The result of \<open>nextFloat()\<close> lies in the closed interval from 0 to 1.\<close>

lemma nextFloat_range: "0 \<le> fst (nextFloat p) \<and> fst (nextFloat p) \<le> 1"
proof -
  define n where "n = uint (xorshift32 (toInt32 (getState p)))"
  have b: "0 \<le> n \<and> n \<le> 0xffffffff"
    unfolding n_def by (rule uint_bounds32)
  have f: "fst (nextFloat p) = fl (real_of_int n / 0xffffffff)"
    unfolding n_def nextFloat_def prng_next_def fdiv_def Let_def by (simp del: of_int_uint)
  from b have "0 \<le> real_of_int n" and "real_of_int n \<le> 0xffffffff"
    by simp_all
  then have "0 \<le> real_of_int n / 0xffffffff" and "real_of_int n / 0xffffffff \<le> 1"
    by simp_all
  then show ?thesis unfolding f by (rule fl_unit_interval)
qed


text \<open>
  C6. \<open>nextFloat()\<close> is documented to return a value in the half-open interval from 0 to 1.
  The divisor is \<open>0xffffffff\<close>, so the generator word \<open>0xffffffff\<close> is mapped to 1: a
  generator constructed with seed 1584200935 returns exactly 1 on its first call.
\<close>

theorem C6_nextFloat_reaches_one:
  "fst (nextFloat (createPRNG (Some 1584200935))) = 1"
  by (simp add: nextFloat_def prng_next_def createPRNG_def PRNG_new_def toInt32_def
      xorshift32_def Let_def fl_eval split del: if_split)

section \<open>Snapshot round trip\<close>

lemma roundtrip_entity:
  assumes "wellFormed e" "e_type e \<noteq> Item"
  shows "deserializeEntity (serializeEntity e) = e\<lparr> e_team := None \<rparr>"
proof (cases "e_type e")
  case Player
  with assms show ?thesis
    by (cases e) (simp add: wellFormed_def deserializeEntity_def serializeEntity_def baseEntity_def)
next
  case Bullet
  with assms show ?thesis
    by (cases e) (simp add: wellFormed_def deserializeEntity_def serializeEntity_def baseEntity_def)
next
  case BuildPiece
  with assms show ?thesis
    by (cases e) (auto simp add: wellFormed_def deserializeEntity_def serializeEntity_def baseEntity_def orZero_def)
next
  case Item
  with assms show ?thesis by simp
qed

text \<open>
  C5, as amended. For a state whose entities are well-formed players, bullets and build
  pieces, deserialising the serialised state gives back the tick and every entity with its
  type and fields, except that a player's \<open>team\<close> is not written to the snapshot and comes
  back undefined.
\<close>

theorem C5_roundtrip_amended:
  assumes "\<forall>e \<in> set (entities s). wellFormed e \<and> e_type e \<noteq> Item"
  shows "tick (deserializeSnapshot (serializeSnapshot s)) = tick s \<and>
         entities (deserializeSnapshot (serializeSnapshot s)) =
           map (\<lambda>e. e\<lparr> e_team := None \<rparr>) (entities s)"
  using assms
  by (simp add: deserializeSnapshot_def serializeSnapshot_def roundtrip_entity)

text \<open>
  C5, as stated, fails on an item: the snapshot has no \<open>itemType\<close> and \<open>respawnTime\<close>
  properties, and the deserialiser turns every entity that is neither a bullet nor a build
  piece into a player.
\<close>

theorem C5_item_counterexample:
  "entities (deserializeSnapshot (serializeSnapshot
      \<lparr> tick = 0,
        entities = [(baseEntity ''item_1'' Item 3 4 (1 / 2) (1 / 2) 0 0 1)
                      \<lparr> e_itemType := Some ''ammo'', e_respawnTime := Some 100 \<rparr>],
        rng = None, lastChecksum = None \<rparr>))
   = [baseEntity ''item_1'' Player 3 4 (1 / 2) (1 / 2) 0 0 1]
   \<and> baseEntity ''item_1'' Player 3 4 (1 / 2) (1 / 2) 0 0 1 \<noteq>
       (baseEntity ''item_1'' Item 3 4 (1 / 2) (1 / 2) 0 0 1)
          \<lparr> e_itemType := Some ''ammo'', e_respawnTime := Some 100 \<rparr>"
  by (simp add: deserializeSnapshot_def serializeSnapshot_def deserializeEntity_def
      serializeEntity_def baseEntity_def)

text \<open>The amended round trip on a player with a team, a bullet and a build piece.\<close>

theorem C5_roundtrip_amended_witness:
  "entities (deserializeSnapshot (serializeSnapshot
      \<lparr> tick = 7,
        entities = [(createPlayer ''p1'' 1 2)\<lparr> e_team := Some 1 \<rparr>,
                    createBullet ''b1'' ''p1'' 0 0 1 1 60,
                    createBuildPiece ''w1'' ''p1'' ''wall'' ''wood'' 4 4 4 1 90 100],
        rng = Some 5, lastChecksum = None \<rparr>))
   = [createPlayer ''p1'' 1 2, createBullet ''b1'' ''p1'' 0 0 1 1 60,
      createBuildPiece ''w1'' ''p1'' ''wall'' ''wood'' 4 4 4 1 90 100]"
proof -
  let ?s = "\<lparr> tick = 7,
        entities = [(createPlayer ''p1'' 1 2)\<lparr> e_team := Some 1 \<rparr>,
                    createBullet ''b1'' ''p1'' 0 0 1 1 60,
                    createBuildPiece ''w1'' ''p1'' ''wall'' ''wood'' 4 4 4 1 90 100],
        rng = Some 5, lastChecksum = None \<rparr>"
  have h: "\<forall>e \<in> set (entities ?s). wellFormed e \<and> e_type e \<noteq> Item"
    by (simp add: wellFormed_def createPlayer_def createBullet_def createBuildPiece_def baseEntity_def)
  show ?thesis using C5_roundtrip_amended [OF h]
    by (simp add: createPlayer_def createBullet_def createBuildPiece_def baseEntity_def)
qed

section \<open>Fall damage\<close>

subsection \<open>What the phases of the movement step keep\<close>

lemma crouch_keeps: "e_fallStartY (applyCrouchSlide e i dt) = e_fallStartY e \<and>
   e_hp (applyCrouchSlide e i dt) = e_hp e \<and> e_onGround (applyCrouchSlide e i dt) = e_onGround e"
  by (simp add: applyCrouchSlide_def Let_def)

lemma ground_keeps: "e_fallStartY (applyGroundMovement e i dt) = e_fallStartY e \<and>
   e_hp (applyGroundMovement e i dt) = e_hp e"
  by (simp add: applyGroundMovement_def Let_def)

lemma air_keeps: "e_fallStartY (applyAirMovement e i dt) = e_fallStartY e \<and>
   e_hp (applyAirMovement e i dt) = e_hp e \<and>
   e_onGround (applyAirMovement e i dt) = e_onGround e"
  by (simp add: applyAirMovement_def Let_def)

lemma gravity_keeps: "e_fallStartY (applyGravity e dt g) = e_fallStartY e \<and>
   e_hp (applyGravity e dt g) = e_hp e"
  by (simp add: applyGravity_def Let_def split: option.splits)

lemma jump_airborne: "\<not> truthy (e_onGround e) \<Longrightarrow> jump_ent e i t = e"
  by (simp add: jump_ent_def)

lemma jump_not_pressed: "\<not> jump i \<Longrightarrow> jump_ent e i t = e"
  by (simp add: jump_ent_def)

lemma fall_none: "e_fallStartY e = None \<Longrightarrow> computeFallDamage e = (0, e)"
  by (simp add: computeFallDamage_def)

lemma fall_airborne: "\<not> truthy (e_onGround e) \<Longrightarrow> computeFallDamage e = (0, e)"
  by (simp add: computeFallDamage_def split: option.splits)

lemma fall_keeps: "e_y (snd (computeFallDamage e)) = e_y e \<and>
   e_onGround (snd (computeFallDamage e)) = e_onGround e"
  by (simp add: computeFallDamage_def Let_def split: option.splits)

text \<open>The fall damage of an entity that is on the ground with a recorded fall-start height.\<close>

lemma fall_landed:
  assumes "truthy (e_onGround e)" and "e_fallStartY e = Some f"
  shows "e_fallStartY (snd (computeFallDamage e)) = None \<and>
         e_hp (snd (computeFallDamage e)) =
           (if fsub f (e_y e) > 10
            then max 0 (fsub (e_hp e) (real_of_int \<lfloor>fmul (fsub (fsub f (e_y e)) 10) 5\<rfloor>))
            else e_hp e)"
  using assms
  by (simp add: computeFallDamage_def Let_def FALL_DAMAGE_THRESHOLD_def FALL_DAMAGE_RATE_def
      not_less)

text \<open>
  A movement step of an entity that has no recorded fall-start height and does not start a
  jump: the height stays unrecorded and hp is unchanged.
\<close>

lemma movement_without_record:
  assumes "e_fallStartY e = None" and "\<not> truthy (e_onGround e) \<or> \<not> jump input"
  shows "e_fallStartY (processEntityMovement e input dt worldTick ground) = None \<and>
         e_hp (processEntityMovement e input dt worldTick ground) = e_hp e"
proof -
  let ?e1 = "applyCrouchSlide e input dt"
  have j: "jump_ent ?e1 input worldTick = ?e1"
    using assms(2) crouch_keeps [of e input dt] jump_airborne jump_not_pressed by metis
  have "e_fallStartY (processEntityMovement e input dt worldTick ground) = e_fallStartY e \<and>
        e_hp (processEntityMovement e input dt worldTick ground) = e_hp e"
    using assms(1)
    by (simp add: processEntityMovement_def Let_def j fall_none gravity_keeps ground_keeps
        air_keeps crouch_keeps)
  then show ?thesis using assms(1) by simp
qed

text \<open>
  A movement step of an airborne entity: the step is the fall-damage computation applied
  to the entity that the crouch, air-movement and gravity phases produce, and these phases
  keep the recorded height and hp.
\<close>

lemma movement_airborne:
  assumes "e_type e = Player" and "\<not> truthy (e_onGround e)"
  obtains e4 where
    "processEntityMovement e input dt worldTick ground = snd (computeFallDamage e4)"
    "e_fallStartY e4 = e_fallStartY e" "e_hp e4 = e_hp e"
proof -
  let ?e1 = "applyCrouchSlide e input dt"
  let ?e3 = "applyAirMovement ?e1 input dt"
  let ?e4 = "applyGravity ?e3 dt ground"
  have g: "\<not> truthy (e_onGround ?e1)" using assms(2) by (simp add: crouch_keeps)
  then have j: "jump_ent ?e1 input worldTick = ?e1" by (rule jump_airborne)
  have p: "processEntityMovement e input dt worldTick ground = snd (computeFallDamage ?e4)"
    using assms(1) g by (simp add: processEntityMovement_def Let_def j)
  have "e_fallStartY ?e4 = e_fallStartY e" "e_hp ?e4 = e_hp e"
    by (simp_all add: gravity_keeps air_keeps crouch_keeps)
  with p show ?thesis using that by blast
qed

text \<open>
  C7. An airborne entity with the recorded fall-start height \<open>f\<close> goes through one movement
  step (\<open>processEntityMovement\<close>, which applies gravity, detects the landing and then calls
  \<open>computeFallDamage\<close>). If the step lands it (it is on the ground afterwards, at height
  \<open>y'\<close>), then with the fall distance \<open>f - y'\<close>: hp is lowered by
  \<open>floor((fallDistance - 10) * 5)\<close>, clamped at 0, when the distance exceeds 10, and is
  unchanged otherwise; a distance of exactly 10 leaves hp unchanged and a distance of 30
  lowers it by 100; the recorded height is cleared, and a later step that starts no jump
  leaves hp unchanged, so the damage is dealt once. If the step does not land it, hp and
  the recorded height are unchanged. The subtractions and the product are the rounded
  operations of the source.
\<close>

theorem C7_fall_damage:
  assumes "\<not> truthy (e_onGround e)" and "e_fallStartY e = Some f"
  shows
    "(let e' = processEntityMovement e input dt worldTick ground;
          fallDistance = fsub f (e_y e')
      in (truthy (e_onGround e') \<longrightarrow>
            e_hp e' = (if fallDistance > 10
                       then max 0 (fsub (e_hp e)
                              (real_of_int \<lfloor>fmul (fsub fallDistance 10) 5\<rfloor>))
                       else e_hp e) \<and>
            (fallDistance = 10 \<longrightarrow> e_hp e' = e_hp e) \<and>
            (fallDistance = 30 \<longrightarrow> e_hp e' = max 0 (fsub (e_hp e) 100)) \<and>
            e_fallStartY e' = None \<and>
            (\<not> jump input2 \<longrightarrow>
               e_hp (processEntityMovement e' input2 dt2 worldTick2 ground2) = e_hp e'))
         \<and> (\<not> truthy (e_onGround e') \<longrightarrow>
               e_hp e' = e_hp e \<and> e_fallStartY e' = Some f))"
proof (cases "e_type e = Player")
  case False
  then have "processEntityMovement e input dt worldTick ground = e"
    by (simp add: processEntityMovement_def)
  with assms show ?thesis by (simp add: Let_def)
next
  case True
  from movement_airborne [OF True assms(1), of input dt worldTick ground] obtain e4 where
    p: "processEntityMovement e input dt worldTick ground = snd (computeFallDamage e4)"
    and r: "e_fallStartY e4 = Some f" and h: "e_hp e4 = e_hp e"
    using assms(2) by metis
  let ?e' = "snd (computeFallDamage e4)"
  have y: "e_y ?e' = e_y e4" and g: "e_onGround ?e' = e_onGround e4"
    by (simp_all add: fall_keeps)
  have air: "\<not> truthy (e_onGround ?e') \<longrightarrow> e_hp ?e' = e_hp e \<and> e_fallStartY ?e' = Some f"
    using r h by (simp add: g fall_airborne)
  have land: "truthy (e_onGround ?e') \<longrightarrow>
      e_fallStartY ?e' = None \<and>
      e_hp ?e' = (if fsub f (e_y ?e') > 10
                  then max 0 (fsub (e_hp e)
                         (real_of_int \<lfloor>fmul (fsub (fsub f (e_y ?e')) 10) 5\<rfloor>))
                  else e_hp e)"
    using fall_landed [of e4 f] r by (simp add: g y h)
  have c10: "(10::real) < 30" by simp
  have v20: "fsub 30 10 = 20" by (simp add: fl_eval split del: if_split)
  have v100: "fmul 20 5 = 100" by (simp add: fl_eval split del: if_split)
  have once: "e_fallStartY ?e' = None \<longrightarrow> \<not> jump input2 \<longrightarrow>
      e_hp (processEntityMovement ?e' input2 dt2 worldTick2 ground2) = e_hp ?e'"
    using movement_without_record [of ?e' input2 dt2 worldTick2 ground2] by blast
  show ?thesis
    unfolding Let_def p
    using air land once by (auto simp add: v20 v100)
qed

text \<open>
  An airborne player with 150 hp at height 15, with the recorded height 30, lands on the
  floor within one step of one second: the fall distance is 30 and hp drops to 50.
\<close>

theorem C7_fall_damage_witness:
  "truthy (e_onGround (processEntityMovement
      ((createPlayer ''p1'' 0 15)\<lparr> e_onGround := Some False, e_fallStartY := Some 30,
                                   e_hp := 150 \<rparr>) (defaultInput ''p1'') 1 1 []))
   \<and> e_y (processEntityMovement
      ((createPlayer ''p1'' 0 15)\<lparr> e_onGround := Some False, e_fallStartY := Some 30,
                                   e_hp := 150 \<rparr>) (defaultInput ''p1'') 1 1 []) = 0
   \<and> e_hp (processEntityMovement
      ((createPlayer ''p1'' 0 15)\<lparr> e_onGround := Some False, e_fallStartY := Some 30,
                                   e_hp := 150 \<rparr>) (defaultInput ''p1'') 1 1 []) = 50
   \<and> e_fallStartY (processEntityMovement
      ((createPlayer ''p1'' 0 15)\<lparr> e_onGround := Some False, e_fallStartY := Some 30,
                                   e_hp := 150 \<rparr>) (defaultInput ''p1'') 1 1 []) = None"
proof -
  let ?e = "(createPlayer ''p1'' 0 15)\<lparr> e_onGround := Some False, e_fallStartY := Some 30,
                                        e_hp := 150 \<rparr>"
  let ?e' = "processEntityMovement ?e (defaultInput ''p1'') 1 1 []"
  have a: "\<not> truthy (e_onGround ?e)" by (simp add: truthy_def)
  have b: "e_fallStartY ?e = Some 30" by simp
  have h: "e_hp ?e = 150" by simp
  have d: "truthy (e_onGround ?e') \<and> e_y ?e' = 0"
    by (simp add: processEntityMovement_def createPlayer_def baseEntity_def defaultInput_def
        truthy_def applyCrouchSlide_def jump_ent_def applyAirMovement_def applyGravity_def
        computeFallDamage_def accelToward_def orDefault_def GRAVITY_def AIR_RESISTANCE_def
        FALL_DAMAGE_THRESHOLD_def FALL_DAMAGE_RATE_def Let_def fl_eval split del: if_split)
  have v30: "fsub 30 0 = 30" by (simp add: fl_eval split del: if_split)
  have v50: "max 0 (fsub 150 (real_of_int \<lfloor>fmul (fsub 30 10) 5\<rfloor>)) = 50"
    by (simp add: fl_eval split del: if_split)
  from C7_fall_damage [OF a b, of "defaultInput ''p1''" 1 1 "[]"] d show ?thesis
    unfolding h by (simp add: Let_def v30 v50)
qed

subsection \<open>Only a jump records a fall-start height\<close>

text \<open>
  C10. Among the movement operations only \<open>jump\<close> writes \<open>fallStartY\<close>. A player with no
  recorded fall-start height that is airborne (or whose input does not request a jump)
  goes through the whole movement step, landing included, with \<open>fallStartY\<close> still
  undefined and hp unchanged, whatever its height; the fall damage computed for it is 0.
\<close>

theorem C10_no_jump_no_fall_damage:
  assumes "e_fallStartY e = None" and "\<not> truthy (e_onGround e) \<or> \<not> jump input"
  shows "computeFallDamage e = (0, e) \<and>
         e_fallStartY (processEntityMovement e input dt worldTick ground) = None \<and>
         e_hp (processEntityMovement e input dt worldTick ground) = e_hp e \<and>
         fst (computeFallDamage (processEntityMovement e input dt worldTick ground)) = 0"
  using movement_without_record [OF assms, of dt worldTick ground] assms(1)
  by (simp add: fall_none)

text \<open>
  A player without ground state, 15 units above the floor, lands within one step of one
  second and keeps its hp.
\<close>

theorem C10_no_jump_no_fall_damage_witness:
  "e_onGround (processEntityMovement (baseEntity ''p'' Player 0 15 1 2 0 0 100)
      (defaultInput ''p'') 1 1 []) = Some True
   \<and> e_y (processEntityMovement (baseEntity ''p'' Player 0 15 1 2 0 0 100)
      (defaultInput ''p'') 1 1 []) = 0
   \<and> e_fallStartY (processEntityMovement (baseEntity ''p'' Player 0 15 1 2 0 0 100)
      (defaultInput ''p'') 1 1 []) = None
   \<and> e_hp (processEntityMovement (baseEntity ''p'' Player 0 15 1 2 0 0 100)
      (defaultInput ''p'') 1 1 []) = 100"
proof -
  let ?e = "baseEntity ''p'' Player 0 15 1 2 0 0 100"
  have a: "e_fallStartY ?e = None" by (simp add: baseEntity_def)
  have b: "\<not> truthy (e_onGround ?e) \<or> \<not> jump (defaultInput ''p'')"
    by (simp add: baseEntity_def truthy_def)
  have c: "e_hp ?e = 100" by (simp add: baseEntity_def)
  have d: "e_onGround (processEntityMovement ?e (defaultInput ''p'') 1 1 []) = Some True
     \<and> e_y (processEntityMovement ?e (defaultInput ''p'') 1 1 []) = 0"
    by (simp add: processEntityMovement_def baseEntity_def defaultInput_def truthy_def
        applyCrouchSlide_def jump_ent_def applyAirMovement_def applyGravity_def
        computeFallDamage_def accelToward_def orDefault_def GRAVITY_def AIR_RESISTANCE_def
        Let_def fl_eval split del: if_split)
  from C10_no_jump_no_fall_damage [OF a b, of 1 1 "[]"] d show ?thesis
    unfolding c by simp
qed

section \<open>The tick and the state's rng\<close>

lemma rng_applyInputsShallow: "rng (applyInputsShallow s i dt) = rng s"
  by (simp add: applyInputsShallow_def cloneState_def Let_def)

lemma rng_processMovement: "rng (processMovement h s i dt t) = rng s"
  by (simp add: processMovement_def)

lemma rng_handleWeaponCombat:
  "handleWeaponCombat h s i ps g = Inr (s', ps', g') \<Longrightarrow> rng s' = rng s"
  by (auto simp add: handleWeaponCombat_def bindE_def split: sum.splits prod.splits)

lemma rng_handleProjectiles:
  "handleProjectiles s ps dt g = (s', ps', g') \<Longrightarrow> rng s' = rng s"
  by (auto simp add: handleProjectiles_def Let_def split: prod.splits)

text \<open>The shape of a completed tick.\<close>

lemma tick_full_Inr:
  assumes "World_tick_full h w inputs = Inr (prev, w')"
  obtains next2 projs2 prng2 next3 projs3 prng3 where
    "handleWeaponCombat h
       (processMovement h (applyInputsShallow (w_state w) (mergeInputs inputs) (w_dt w))
          (mergeInputs inputs) (w_dt w)
          (tick (applyInputsShallow (w_state w) (mergeInputs inputs) (w_dt w))))
       (mergeInputs inputs) (w_activeProjectiles w) (w_prng w) = Inr (next2, projs2, prng2)"
    "handleProjectiles next2 projs2 (w_dt w) prng2 = (next3, projs3, prng3)"
    "prev = (w_state w)\<lparr> rng := Some (getState prng3) \<rparr>"
    "w' = w\<lparr> w_state :=
              (next3\<lparr> entities := resolvePlayers (entities next3) (playerIndices (entities next3)) \<rparr>)
                \<lparr> lastChecksum := Some (computeStateChecksum h
                    (next3\<lparr> entities := resolvePlayers (entities next3) (playerIndices (entities next3)) \<rparr>)) \<rparr>,
            w_prng := snd (prng_next prng3), w_activeProjectiles := projs3 \<rparr>"
proof -
  let ?hw = "handleWeaponCombat h
       (processMovement h (applyInputsShallow (w_state w) (mergeInputs inputs) (w_dt w))
          (mergeInputs inputs) (w_dt w)
          (tick (applyInputsShallow (w_state w) (mergeInputs inputs) (w_dt w))))
       (mergeInputs inputs) (w_activeProjectiles w) (w_prng w)"
  show ?thesis
  proof (cases ?hw)
    case (Inl e)
    then have "World_tick_full h w inputs = Inl e"
      by (simp add: World_tick_full_def Let_def bindE_def)
    with assms show ?thesis by simp
  next
    case (Inr r)
    obtain next2 projs2 prng2 where r: "r = (next2, projs2, prng2)"
      by (cases r) auto
    obtain next3 projs3 prng3 where
      hp: "handleProjectiles next2 projs2 (w_dt w) prng2 = (next3, projs3, prng3)"
      by (cases "handleProjectiles next2 projs2 (w_dt w) prng2") auto
    from assms Inr r hp show ?thesis
      using that [of next2 projs2 prng2 next3 projs3 prng3]
      by (simp add: World_tick_full_def Let_def bindE_def)
  qed
qed

text \<open>
  Whatever the inputs, a completed tick commits a State whose \<open>rng\<close> is the \<open>rng\<close> of the State
  it replaced: the generator's state is written to the replaced object only.
\<close>

lemma tick_commits_old_rng:
  assumes "World_tick_full h w inputs = Inr (prev, w')"
  shows "rng (w_state w') = rng (w_state w)"
proof -
  from assms obtain next2 projs2 prng2 next3 projs3 prng3 where
    hw: "handleWeaponCombat h
       (processMovement h (applyInputsShallow (w_state w) (mergeInputs inputs) (w_dt w))
          (mergeInputs inputs) (w_dt w)
          (tick (applyInputsShallow (w_state w) (mergeInputs inputs) (w_dt w))))
       (mergeInputs inputs) (w_activeProjectiles w) (w_prng w) = Inr (next2, projs2, prng2)"
    and hp: "handleProjectiles next2 projs2 (w_dt w) prng2 = (next3, projs3, prng3)"
    and w': "w' = w\<lparr> w_state :=
              (next3\<lparr> entities := resolvePlayers (entities next3) (playerIndices (entities next3)) \<rparr>)
                \<lparr> lastChecksum := Some (computeStateChecksum h
                    (next3\<lparr> entities := resolvePlayers (entities next3) (playerIndices (entities next3)) \<rparr>)) \<rparr>,
            w_prng := snd (prng_next prng3), w_activeProjectiles := projs3 \<rparr>"
    by (rule tick_full_Inr)
  have "rng (w_state w') = rng next3" by (simp add: w')
  also have "\<dots> = rng next2" by (rule rng_handleProjectiles [OF hp])
  also have "\<dots> = rng (w_state w)"
    using rng_handleWeaponCombat [OF hw]
    by (simp add: rng_processMovement rng_applyInputsShallow)
  finally show ?thesis .
qed

lemmas eval_defs = World_tick_def World_tick_full_def createWorld_def World_new_def
  createState_def createPRNG_def PRNG_new_def setState_def mergeInputs_def
  applyInputsShallow_def cloneState_def processMovement_def playerOrder_def
  handleWeaponCombat_def bindE_def handleProjectiles_def playerIndices_def prng_next_def
  xorshift32_def toInt32_def Let_def List.map_filter_def deserializeSnapshot_def
  serializeSnapshot_def serializeEntity_def deserializeEntity_def createPlayer_def
  baseEntity_def reconcile_def applyInput_def advanceBullet_def movePlayer_def
  processEntityMovement_def applyCrouchSlide_def jump_ent_def applyGroundMovement_def
  applyAirMovement_def applyGravity_def computeFallDamage_def groundEntitiesOf_def
  defaultInput_def reloadEntity_def updateReload_def getActiveWeapon_def nth_opt_def
  createDefaultInventory_def collidePair_def truthy_def orDefault_def accelToward_def
  applyFriction_def GRAVITY_def FRICTION_def World_serialize_def objectEntries_def
  arrayIndex_def isDigit_def digitsValue_def getProp_def sortWith_def

lemma sqrt_25: "sqrt 25 = 5"
  by (rule real_sqrt_unique) simp_all

text \<open>
  C3. The claim is that after a tick the committed State's \<open>rng\<close> equals the generator's state
  after that tick's advance. A World created with seed 1 and ticked twice with no inputs
  holds a State whose \<open>rng\<close> is still the seed 1, while its generator has advanced twice, to
  67634689, on every host.
\<close>

theorem C3_committed_rng_is_stale:
  "map_sum id (\<lambda>w. (rng (w_state w), getState (w_prng w)))
     (World_ticks h (createWorld (Some 1) None) [[], []]) = Inr (Some 1, 67634689)"
  by (simp add: eval_defs fl_eval split del: if_split)

section \<open>Reconciliation against the live tick\<close>

text \<open>
  C2. The snapshot holds one player made by \<open>createPlayer("p1", 0, 0)\<close>; the buffered input
  moves it right with \<open>dx = 1\<close>; the tick rate is 4. \<open>reconcile\<close> replays the input through
  \<open>applyInputsShallow\<close> alone and leaves the player at \<open>x = 1/4\<close>. A World built from the same
  snapshot and ticked once with the same input also runs the movement pass, which
  accelerates the player to the walk speed 5 and integrates the position a second time: the
  player is at \<open>x = 3/2\<close>, on every host. The serialised states differ.
\<close>

theorem C2_reconcile_differs_from_tick:
  "map s_x (snap_entities (serializeSnapshot (reconcile
      (serializeSnapshot \<lparr> tick = 0, entities = [createPlayer ''p1'' 0 0], rng = None,
                           lastChecksum = None \<rparr>)
      [[(''p1'', \<lparr> seq = 0, clientId = ''p1'', dx = 1, dy = 0, shoot = False, jump = False,
                  crouch = False, sprint = False \<rparr>)]] 4))) = [1 / 4]
   \<and> map_sum id (\<lambda>w. map s_x (snap_entities (World_serialize w)))
     (World_tick h (World_new (Some (deserializeSnapshot
        (serializeSnapshot \<lparr> tick = 0, entities = [createPlayer ''p1'' 0 0], rng = None,
                             lastChecksum = None \<rparr>))) 4 None)
      [[(''p1'', \<lparr> seq = 0, clientId = ''p1'', dx = 1, dy = 0, shoot = False, jump = False,
                  crouch = False, sprint = False \<rparr>)]]) = Inr [3 / 2]"
  by (simp add: eval_defs fl_eval sqrt_25 split del: if_split)
section \<open>Projectile damage\<close>

text \<open>
  C8. The target of the repository's combat test stands at \<open>y = 0\<close> with height 1.8; the hit
  detection takes its box as centred, from \<open>y = -0.9\<close> to \<open>y = 0.9\<close>. The vertical axis of the
  engine points up (gravity lowers \<open>vy\<close>, the floor is \<open>y = 0\<close>, the test calls \<open>y = 1.8\<close> head
  level). A sniper projectile (damage 100, headshot multiplier 2) that hits at \<open>y = 0.5\<close>, in
  the upper third of the box, is no headshot and deals 95; one that hits at \<open>y = -0.5\<close>, in
  the lowest third, is a headshot and deals 190: \<open>isHeadshot\<close> takes the band of height \<open>h / 3\<close>
  that starts at \<open>y - h / 2\<close>, the lower edge. The generator is at state 1 in both cases, the
  jitter factor is 0.95000629 and the generator advances by one draw.
\<close>

theorem C8_headshot_band_is_lowest_third:
  "detectProjectileHit
     \<lparr> p_id = ''proj_p1_7'', p_weaponId = ''sniper_bolt'', p_ownerId = ''p1'',
       p_position = (5, 1 / 2), p_direction = (1, 0), p_speed = 80, p_damage = 100,
       p_isHitscan = False, p_spread = fl (1 / 100), p_pellets = 1, p_range = 200,
       p_headshotMultiplier = 2, p_lifetime = 119, p_distanceTraveled = 4 \<rparr>
     [baseEntity ''target'' Player 5 0 1 (fl (18 / 10)) 0 0 100] (PRNG 1)
   = (Some \<lparr> hr_hit = True, hr_entityId = Some ''target'', hr_damage = Some 95,
              hr_position = Some (5, 1 / 2), hr_isHeadshot = Some False,
              hr_distance = None \<rparr>, PRNG 270369)
   \<and> detectProjectileHit
     \<lparr> p_id = ''proj_p1_7'', p_weaponId = ''sniper_bolt'', p_ownerId = ''p1'',
       p_position = (5, - (1 / 2)), p_direction = (1, 0), p_speed = 80, p_damage = 100,
       p_isHitscan = False, p_spread = fl (1 / 100), p_pellets = 1, p_range = 200,
       p_headshotMultiplier = 2, p_lifetime = 119, p_distanceTraveled = 4 \<rparr>
     [baseEntity ''target'' Player 5 0 1 (fl (18 / 10)) 0 0 100] (PRNG 1)
   = (Some \<lparr> hr_hit = True, hr_entityId = Some ''target'', hr_damage = Some 190,
              hr_position = Some (5, - (1 / 2)), hr_isHeadshot = Some True,
              hr_distance = None \<rparr>, PRNG 270369)"
  by (simp add: calculateDamage_def isHeadshot_def nextFloat_def prng_next_def toInt32_def
      xorshift32_def mathRound_def baseEntity_def intersects_def Let_def fl_eval
      split del: if_split)

section \<open>The state checksum\<close>

subsection \<open>Evaluating the hash\<close>

lemma fnv1aStep_mult: "fnv1aStep h c = (h XOR of_char c) * 16777619"
  by (simp add: fnv1aStep_def Let_def push_bit_eq_mult algebra_simps)

lemma uint_of_char32: "uint (of_char c :: 32 word) = of_char c"
proof -
  have "(of_char c :: nat) < 256" by (rule nat_of_char_less_256)
  also have "(256 :: nat) < 2 ^ 32" by simp
  finally have "(of_char c :: nat) < 2 ^ 32" .
  then have "unat (of_nat (of_char c) :: 32 word) = of_char c"
    by (simp add: unat_of_nat)
  then have "unat (of_char c :: 32 word) = of_char c"
    by (simp only: of_nat_of_char)
  then have "int (unat (of_char c :: 32 word)) = int (of_char c)"
    by simp
  then show ?thesis
    by (simp only: of_nat_of_char uint_nat [symmetric])
qed

lemma uint_fnv1aStep: "uint (fnv1aStep h c) = fnvStepInt (uint h) c"
proof -
  have "uint (fnv1aStep h c) = uint (h XOR of_char c) * uint (16777619 :: 32 word) mod 2 ^ 32"
    unfolding fnv1aStep_mult by (simp add: uint_word_ariths del: of_int_uint)
  also have "uint (16777619 :: 32 word) = 16777619" by simp
  also have "uint (h XOR of_char c) = uint h XOR of_char c"
    by (simp only: uint_xor uint_of_char32)
  finally show ?thesis by (simp add: fnvStepInt_def)
qed

lemma uint_foldl_fnv: "uint (foldl fnv1aStep h s) = foldl fnvStepInt (uint h) s"
  by (induction s arbitrary: h) (simp_all add: uint_fnv1aStep del: of_int_uint)

lemma fnv1aHash_int: "int (fnv1aHash s) = foldl fnvStepInt 2166136261 s"
proof -
  have "int (fnv1aHash s) = uint (foldl fnv1aStep 0x811c9dc5 s)"
    by (simp only: fnv1aHash_def uint_nat)
  also have "\<dots> = foldl fnvStepInt (uint (0x811c9dc5 :: 32 word)) s"
    by (rule uint_foldl_fnv)
  also have "uint (0x811c9dc5 :: 32 word) = 2166136261" by simp
  finally show ?thesis .
qed



lemma hashState_int:
  "hashState v = showBase 16 (nat (foldl fnvStepInt 2166136261 (canonicalJson v)))"
proof -
  have "fnv1aHash (canonicalJson v) = nat (int (fnv1aHash (canonicalJson v)))" by simp
  then show ?thesis
    by (simp only: hashState_def toHex_def fnv1aHash_int)
qed

lemmas hash_defs = computeStateChecksum_def createQuantizedSnapshot_def sortWith_def
  quantizeEntity_def quantizeValue_def mathRound_def typeString_def optStr_def showInt_def
  showBase.simps digitChar_def jsonQuote_def escapeChar_def baseEntity_def Let_def
  hashState_int fnvStepInt_def objectEntries_def arrayIndex_def isDigit_def digitsValue_def
  jsonId_def plainHost_def collatingHost_def codeUnitCompare_def collationCompare_def
  ignorable_def

subsection \<open>Sorting with a comparison function\<close>












subsection \<open>The sorted, quantised entity list\<close>






text \<open>
  The hypothesis on the ids is needed. The sort is stable, so two entities whose ids the
  host's \<open>localeCompare\<close> reports as equal are hashed in array order: on a host that ignores
  control characters the entities with the distinct ids \<open>a\<close> and \<open>a\<close> followed by \<open>U+0001\<close>
  are such a pair.
\<close>

lemma checksum_tied_ids_order:
  "computeStateChecksum collatingHost \<lparr> tick = 0,
     entities = [baseEntity ''a'' Player 0 0 1 2 0 0 100,
                 baseEntity [CHR ''a'', CHR 0x01] Player 1 0 1 2 0 0 100],
     rng = Some 1, lastChecksum = None \<rparr>
   \<noteq> computeStateChecksum collatingHost \<lparr> tick = 0,
     entities = [baseEntity [CHR ''a'', CHR 0x01] Player 1 0 1 2 0 0 100,
                 baseEntity ''a'' Player 0 0 1 2 0 0 100],
     rng = Some 1, lastChecksum = None \<rparr>"
  by (simp add: hash_defs fl_eval split del: if_split)


section \<open>Entity ids\<close>

lemma ids_updateFirst:
  "(\<And>x. e_id (f x) = e_id x) \<Longrightarrow> map e_id (updateFirst P f xs) = map e_id xs"
  by (induction xs) simp_all

lemma ids_update_same:
  assumes "e_id p = e_id (es ! i)"
  shows "map e_id (es[i := p]) = map e_id es"
proof (cases "i < length es")
  case True
  have "map e_id (es[i := p]) = (map e_id es)[i := e_id p]" by (rule map_update)
  also have "\<dots> = (map e_id es)[i := map e_id es ! i]" using assms True by simp
  also have "\<dots> = map e_id es" by (rule list_update_id)
  finally show ?thesis .
next
  case False
  then have "es[i := p] = es" by (simp add: list_update_beyond)
  then show ?thesis by simp
qed

subsection \<open>Shallow input application\<close>

lemma ids_applyPlayerInputs: "map e_id (applyPlayerInputs dt inputs es) = map e_id es"
proof (induction inputs arbitrary: es)
  case Nil
  then show ?case by simp
next
  case (Cons a inputs)
  obtain cid input where a: "a = (cid, input)" by (cases a)
  show ?case
    unfolding a by (simp add: Cons.IH ids_updateFirst applyInput_def Let_def)
qed

lemma id_advanceBullet: "advanceBullet dt e = Some e' \<Longrightarrow> e_id e' = e_id e"
  by (auto simp add: advanceBullet_def Let_def split: if_splits option.splits)

lemma ids_map_filter_subset:
  "set (map e_id (List.map_filter (advanceBullet dt) es)) \<subseteq> set (map e_id es)"
proof (induction es)
  case Nil
  then show ?case by simp
next
  case (Cons a es)
  then show ?case
    by (cases "advanceBullet dt a") (auto dest: id_advanceBullet)
qed

lemma distinct_map_filter:
  "distinct (map e_id es) \<Longrightarrow> distinct (map e_id (List.map_filter (advanceBullet dt) es))"
proof (induction es)
  case Nil
  then show ?case by simp
next
  case (Cons a es)
  show ?case
  proof (cases "advanceBullet dt a")
    case None
    with Cons show ?thesis by simp
  next
    case (Some a')
    then have "e_id a' = e_id a" by (rule id_advanceBullet)
    moreover have "e_id a \<notin> set (map e_id (List.map_filter (advanceBullet dt) es))"
      using Cons.prems ids_map_filter_subset [of dt es] by auto
    ultimately show ?thesis using Cons Some by simp
  qed
qed

lemma distinct_applyInputsShallow:
  "distinct (map e_id (entities s)) \<Longrightarrow> distinct (map e_id (entities (applyInputsShallow s inputs dt)))"
  by (simp add: applyInputsShallow_def Let_def cloneState_def distinct_map_filter
      ids_applyPlayerInputs)

subsection \<open>Movement\<close>

lemma id_applyCrouchSlide: "e_id (applyCrouchSlide e i dt) = e_id e"
  by (simp add: applyCrouchSlide_def Let_def)

lemma id_jump_ent: "e_id (jump_ent e i t) = e_id e"
  by (simp add: jump_ent_def)

lemma id_applyGroundMovement: "e_id (applyGroundMovement e i dt) = e_id e"
  by (simp add: applyGroundMovement_def Let_def)

lemma id_applyAirMovement: "e_id (applyAirMovement e i dt) = e_id e"
  by (simp add: applyAirMovement_def Let_def)

lemma id_applyGravity: "e_id (applyGravity e dt g) = e_id e"
  by (simp add: applyGravity_def Let_def split: option.splits)

lemma id_computeFallDamage: "e_id (snd (computeFallDamage e)) = e_id e"
  by (simp add: computeFallDamage_def Let_def split: option.splits)

lemma id_processEntityMovement: "e_id (processEntityMovement e i dt t g) = e_id e"
  by (simp add: processEntityMovement_def Let_def id_computeFallDamage id_applyGravity
      id_applyAirMovement id_applyGroundMovement id_jump_ent id_applyCrouchSlide)

lemma ids_movePlayer: "map e_id (movePlayer inputs dt t es i) = map e_id es"
  unfolding movePlayer_def Let_def
  by (rule ids_update_same) (simp add: id_processEntityMovement)

lemma ids_foldl_movePlayer: "map e_id (foldl (movePlayer inputs dt t) es js) = map e_id es"
  by (induction js arbitrary: es) (simp_all add: ids_movePlayer)

lemma ids_processMovement:
  "map e_id (entities (processMovement h s inputs dt t)) = map e_id (entities s)"
  by (simp add: processMovement_def ids_foldl_movePlayer)


subsection \<open>Weapon combat\<close>

lemma id_reloadEntity: "reloadEntity e = Inr e' \<Longrightarrow> e_id e' = e_id e"
  by (auto simp add: reloadEntity_def bindE_def split: if_splits option.splits sum.splits)

lemma ids_mapE_reloadEntity: "mapE reloadEntity es = Inr es' \<Longrightarrow> map e_id es' = map e_id es"
proof (induction es arbitrary: es')
  case Nil
  then show ?case by simp
next
  case (Cons a es)
  from Cons.prems obtain a' rest where
    a': "reloadEntity a = Inr a'" and rest: "mapE reloadEntity es = Inr rest"
    and es': "es' = a' # rest"
    by (auto simp add: bindE_def split: sum.splits)
  from id_reloadEntity [OF a'] Cons.IH [OF rest] es' show ?case by simp
qed

lemma id_handlePlayerShooting:
  "handlePlayerShooting h shooter input prng = Inr (shooter', new, prng') \<Longrightarrow>
   e_id shooter' = e_id shooter"
  by (auto simp add: handlePlayerShooting_def bindE_def Let_def
      split: option.splits sum.splits if_splits prod.splits)

lemma ids_shootAll:
  "shootAll h inputs es projs prng = Inr (es', projs', prng') \<Longrightarrow> map e_id es' = map e_id es"
proof (induction inputs arbitrary: es projs prng)
  case Nil
  then show ?case by simp
next
  case (Cons a inputs)
  obtain cid inp where a: "a = (cid, inp)" by (cases a)
  show ?case
  proof (cases "shoot inp")
    case False
    with Cons.prems a have "shootAll h inputs es projs prng = Inr (es', projs', prng')" by simp
    then show ?thesis by (rule Cons.IH)
  next
    case True
    show ?thesis
    proof (cases "findIndex (\<lambda>e. e_id e = cid \<and> e_type e = Player) es")
      case None
      with Cons.prems a True have "shootAll h inputs es projs prng = Inr (es', projs', prng')"
        by simp
      then show ?thesis by (rule Cons.IH)
    next
      case (Some i)
      show ?thesis
      proof (cases "e_inventory (es ! i) = None")
        case inv: True
        with Cons.prems a True Some
        have "shootAll h inputs es projs prng = Inr (es', projs', prng')" by simp
        then show ?thesis by (rule Cons.IH)
      next
        case inv: False
        with Cons.prems a True Some obtain shooter new prng1 where
          hs: "handlePlayerShooting h (es ! i) inp prng = Inr (shooter, new, prng1)"
          and rest: "shootAll h inputs (es[i := shooter]) (projs @ new) prng1
                       = Inr (es', projs', prng')"
          by (auto simp add: bindE_def split: sum.splits)
        have "map e_id es' = map e_id (es[i := shooter])" using rest by (rule Cons.IH)
        also have "\<dots> = map e_id es"
          by (rule ids_update_same) (rule id_handlePlayerShooting [OF hs])
        finally show ?thesis .
      qed
    qed
  qed
qed

lemma ids_handleWeaponCombat:
  assumes "handleWeaponCombat h s inputs projs prng = Inr (s', projs', prng')"
  shows "map e_id (entities s') = map e_id (entities s)"
proof -
  from assms obtain es1 es2 where
    r: "mapE reloadEntity (entities s) = Inr es1"
    and sh: "shootAll h (objectEntries inputs) es1 projs prng = Inr (es2, projs', prng')"
    and s': "s' = s\<lparr> entities := es2 \<rparr>"
    by (auto simp add: handleWeaponCombat_def bindE_def split: sum.splits)
  from ids_shootAll [OF sh] ids_mapE_reloadEntity [OF r] s' show ?thesis by simp
qed

subsection \<open>Projectiles and collisions\<close>

lemma ids_applyHit: "map e_id (applyHit es hit) = map e_id es"
  by (simp add: applyHit_def ids_updateFirst split: option.splits)

lemma ids_foldl_applyHit: "map e_id (foldl applyHit es hits) = map e_id es"
  by (induction hits arbitrary: es) (simp_all add: ids_applyHit)

lemma ids_handleProjectiles:
  "handleProjectiles s projs dt prng = (s', projs', prng') \<Longrightarrow>
   map e_id (entities s') = map e_id (entities s)"
  by (auto simp add: handleProjectiles_def Let_def ids_foldl_applyHit split: prod.splits)

lemma ids_collidePair: "map e_id (collidePair es i j) = map e_id es"
proof (cases "intersects (boxOf (es ! i)) (boxOf (es ! j))")
  case False
  then show ?thesis by (simp add: collidePair_def Let_def)
next
  case True
  let ?m = "resolve (boxOf (es ! i)) (boxOf (es ! j))"
  let ?p1 = "(es ! i)\<lparr> e_x := fadd (e_x (es ! i)) (fdiv (fst ?m) 2),
                        e_y := fadd (e_y (es ! i)) (fdiv (snd ?m) 2) \<rparr>"
  let ?p2 = "(es ! j)\<lparr> e_x := fsub (e_x (es ! j)) (fdiv (fst ?m) 2),
                        e_y := fsub (e_y (es ! j)) (fdiv (snd ?m) 2) \<rparr>"
  have c: "collidePair es i j = es[i := ?p1, j := ?p2]"
    using True by (simp add: collidePair_def Let_def)
  have 1: "map e_id (es[i := ?p1]) = map e_id es"
    by (rule ids_update_same) simp
  have "map e_id (es[i := ?p1, j := ?p2]) = (map e_id (es[i := ?p1]))[j := e_id ?p2]"
    by (rule map_update)
  also have "\<dots> = (map e_id es)[j := e_id (es ! j)]" by (simp only: 1) simp
  also have "\<dots> = map e_id es"
  proof (cases "j < length es")
    case True
    then have "e_id (es ! j) = map e_id es ! j" by simp
    then show ?thesis by (simp only: list_update_id)
  next
    case False
    then show ?thesis by (simp add: list_update_beyond)
  qed
  finally show ?thesis by (simp only: c)
qed

lemma ids_collideFrom: "map e_id (collideFrom es i js) = map e_id es"
  by (induction js arbitrary: es) (simp_all add: ids_collidePair)

lemma ids_resolvePlayers: "map e_id (resolvePlayers es js) = map e_id es"
  by (induction js arbitrary: es) (simp_all add: ids_collideFrom)


subsection \<open>One tick\<close>

lemma ids_tick_full:
  assumes "World_tick_full h w inputs = Inr (prev, w')"
  shows "map e_id (entities (w_state w')) =
         map e_id (entities (applyInputsShallow (w_state w) (mergeInputs inputs) (w_dt w)))"
proof -
  from assms obtain next2 projs2 prng2 next3 projs3 prng3 where
    hw: "handleWeaponCombat h
       (processMovement h (applyInputsShallow (w_state w) (mergeInputs inputs) (w_dt w))
          (mergeInputs inputs) (w_dt w)
          (tick (applyInputsShallow (w_state w) (mergeInputs inputs) (w_dt w))))
       (mergeInputs inputs) (w_activeProjectiles w) (w_prng w) = Inr (next2, projs2, prng2)"
    and hp: "handleProjectiles next2 projs2 (w_dt w) prng2 = (next3, projs3, prng3)"
    and w': "w' = w\<lparr> w_state :=
              (next3\<lparr> entities := resolvePlayers (entities next3) (playerIndices (entities next3)) \<rparr>)
                \<lparr> lastChecksum := Some (computeStateChecksum h
                    (next3\<lparr> entities := resolvePlayers (entities next3) (playerIndices (entities next3)) \<rparr>)) \<rparr>,
            w_prng := snd (prng_next prng3), w_activeProjectiles := projs3 \<rparr>"
    by (rule tick_full_Inr)
  have "map e_id (entities (w_state w')) = map e_id (entities next3)"
    by (simp add: w' ids_resolvePlayers)
  also have "\<dots> = map e_id (entities next2)" by (rule ids_handleProjectiles [OF hp])
  also have "\<dots> = map e_id (entities (applyInputsShallow (w_state w) (mergeInputs inputs) (w_dt w)))"
    using ids_handleWeaponCombat [OF hw] by (simp add: ids_processMovement)
  finally show ?thesis .
qed

lemma distinct_tick:
  assumes "World_tick h w inputs = Inr w'" and "distinct (map e_id (entities (w_state w)))"
  shows "distinct (map e_id (entities (w_state w')))"
proof -
  from assms(1) obtain prev where "World_tick_full h w inputs = Inr (prev, w')"
    by (auto simp add: World_tick_def bindE_def split: sum.splits)
  then have "map e_id (entities (w_state w')) =
         map e_id (entities (applyInputsShallow (w_state w) (mergeInputs inputs) (w_dt w)))"
    by (rule ids_tick_full)
  with distinct_applyInputsShallow [OF assms(2)] show ?thesis by simp
qed

subsection \<open>Construction and spawning\<close>

lemma entities_createWorld: "entities (w_state (createWorld seed tr)) = []"
  by (simp add: createWorld_def World_new_def createState_def Let_def split: option.splits)


text \<open>
  C9. At the start of an arena match with the players \<open>a\<close> and \<open>b\<close>, \<open>initialize\<close> spawns both
  through the spawn system; at the first round \<open>onRoundStart\<close> asks the spawn system again,
  which refuses because both spawn points are occupied, and then \<open>MatchRunner.spawnPlayers\<close>
  pushes a second entity for each player without looking at the entities that exist: the
  state holds two entities with id \<open>a\<close> and two with id \<open>b\<close>.
\<close>

theorem C9_round_start_duplicates:
  "map e_id (entities (w_state (arena_matchStart [''a'', ''b''] (createWorld (Some 1) None))))
     = [''a'', ''b'', ''a'', ''b'']"
  by (simp add: arena_matchStart_def arena_roundStart_def arena_initialize_def
      arena_onRoundStart_def arena_generateSpawnPoints_def spawnPlayer_def canSpawnAt_def
      getSpawnPoint_def createPlayer_def baseEntity_def entities_createWorld Let_def
      fl_eval fl_lt_one_iff split del: if_split)

text \<open>
  The tick itself keeps the ids pairwise distinct: the ids after a completed tick are those
  that survive the shallow input pass, which only removes expired bullets.
\<close>

lemma tick_keeps_ids_distinct:
  assumes "World_tick h w inputs = Inr w'" and "distinct (map e_id (entities (w_state w)))"
  shows "distinct (map e_id (entities (w_state w')))"
  using assms by (rule distinct_tick)

section \<open>Runs of two Worlds\<close>

subsection \<open>What a tick takes from the host\<close>



















subsection \<open>A World constructed from a seed alone\<close>

lemma checksum_ignores_lastChecksum:
  "computeStateChecksum h (s\<lparr> lastChecksum := c \<rparr>) = computeStateChecksum h s"
  by (simp add: computeStateChecksum_def)

lemma applyPlayerInputs_Nil: "applyPlayerInputs dt inputs [] = []"
  by (induction inputs) auto

lemma shootAll_Nil: "shootAll h inputs [] projs prng = Inr ([], projs, prng)"
  by (induction inputs) auto

text \<open>A tick of a World without entities and without projectiles.\<close>

lemma tick_empty:
  assumes "entities (w_state w) = []" and "w_activeProjectiles w = []"
  shows "World_tick h w inputs =
     Inr (w\<lparr> w_state :=
               \<lparr> tick = tick (w_state w) + 1, entities = [], rng = rng (w_state w),
                 lastChecksum = Some (computeStateChecksum h
                   \<lparr> tick = tick (w_state w) + 1, entities = [], rng = rng (w_state w),
                     lastChecksum = None \<rparr>) \<rparr>,
             w_prng := snd (prng_next (w_prng w)),
             w_activeProjectiles := [] \<rparr>)"
proof -
  let ?m = "mergeInputs inputs"
  let ?n = "\<lparr> tick = tick (w_state w) + 1, entities = [], rng = rng (w_state w),
              lastChecksum = lastChecksum (w_state w) \<rparr>"
  have a: "applyInputsShallow (w_state w) ?m (w_dt w) = ?n"
    using assms(1)
    by (simp add: applyInputsShallow_def cloneState_def Let_def applyPlayerInputs_Nil)
  have b: "processMovement h ?n ?m (w_dt w) (tick (w_state w) + 1) = ?n"
    by (simp add: processMovement_def playerOrder_def sortWith_def)
  have c: "handleWeaponCombat h ?n ?m (w_activeProjectiles w) (w_prng w)
             = Inr (?n, [], w_prng w)"
    using assms(2) by (simp add: handleWeaponCombat_def bindE_def shootAll_Nil)
  have d: "handleProjectiles ?n [] (w_dt w) (w_prng w) = (?n, [], w_prng w)"
    by (simp add: handleProjectiles_def)
  have e: "computeStateChecksum h ?n =
           computeStateChecksum h \<lparr> tick = tick (w_state w) + 1, entities = [],
             rng = rng (w_state w), lastChecksum = None \<rparr>"
    by (simp add: computeStateChecksum_def)
  show ?thesis
    by (simp add: World_tick_def World_tick_full_def Let_def a b c d e bindE_def
        playerIndices_def)
qed


lemma trace_empty:
  assumes "entities (w_state w) = []" and "w_activeProjectiles w = []"
  shows "World_trace h w I =
     Inr (map (\<lambda>k. (Some (computeStateChecksum h
                          \<lparr> tick = tick (w_state w) + 1 + int k, entities = [],
                            rng = rng (w_state w), lastChecksum = None \<rparr>),
                      rng (w_state w),
                      \<lparr> snap_tick = tick (w_state w) + 1 + int k, snap_entities = [] \<rparr>))
            [0 ..< length I])"
  using assms
proof (induction I arbitrary: w)
  case Nil
  then show ?case by simp
next
  case (Cons inputs I)
  let ?w' = "w\<lparr> w_state :=
               \<lparr> tick = tick (w_state w) + 1, entities = [], rng = rng (w_state w),
                 lastChecksum = Some (computeStateChecksum h
                   \<lparr> tick = tick (w_state w) + 1, entities = [], rng = rng (w_state w),
                     lastChecksum = None \<rparr>) \<rparr>,
             w_prng := snd (prng_next (w_prng w)),
             w_activeProjectiles := [] \<rparr>"
  have t: "World_tick h w inputs = Inr ?w'"
    using Cons.prems by (rule tick_empty)
  have ih: "World_trace h ?w' I =
     Inr (map (\<lambda>k. (Some (computeStateChecksum h
                          \<lparr> tick = tick (w_state ?w') + 1 + int k, entities = [],
                            rng = rng (w_state ?w'), lastChecksum = None \<rparr>),
                      rng (w_state ?w'),
                      \<lparr> snap_tick = tick (w_state ?w') + 1 + int k, snap_entities = [] \<rparr>))
            [0 ..< length I])"
    by (rule Cons.IH) simp_all
  have o: "observe ?w' =
     (Some (computeStateChecksum h
              \<lparr> tick = tick (w_state w) + 1, entities = [], rng = rng (w_state w),
                lastChecksum = None \<rparr>),
      rng (w_state w), \<lparr> snap_tick = tick (w_state w) + 1, snap_entities = [] \<rparr>)"
    by (simp add: observe_def World_serialize_def serializeSnapshot_def)
  have u: "[0 ..< length (inputs # I)] = 0 # map Suc [0 ..< length I]"
    by (simp add: upt_conv_Cons map_Suc_upt del: upt_Suc)
  show ?case
    unfolding u by (simp add: t ih o bindE_def comp_def add.assoc)
qed


lemma createWorld_state:
  "w_state (createWorld S tr) =
     \<lparr> tick = 0, entities = [],
       rng = Some (case S of None \<Rightarrow> 0x12345678 | Some seed \<Rightarrow> seed),
       lastChecksum = None \<rparr>
   \<and> w_activeProjectiles (createWorld S tr) = []"
  by (cases S)
     (simp_all add: createWorld_def World_new_def createState_def createPRNG_def PRNG_new_def
        Let_def)

text \<open>
  A World constructed from a seed has no entities, and \<open>World.tick\<close> creates none. Its run
  through any sequence of input arrays never throws, and after the \<open>k\<close>-th tick its
  checksum, its \<open>state.rng\<close> and its serialised state are the values below.
\<close>

lemma seed_world_trace:
  "World_trace h (createWorld S tr) I =
     Inr (map (\<lambda>k. (Some (computeStateChecksum h
                          \<lparr> tick = 1 + int k, entities = [],
                            rng = Some (case S of None \<Rightarrow> 0x12345678 | Some seed \<Rightarrow> seed),
                            lastChecksum = None \<rparr>),
                      Some (case S of None \<Rightarrow> 0x12345678 | Some seed \<Rightarrow> seed),
                      \<lparr> snap_tick = 1 + int k, snap_entities = [] \<rparr>))
            [0 ..< length I])"
  using trace_empty [of "createWorld S tr" h I]
  by (simp add: createWorld_state)

end
